theory Spec2Isabelle
  imports Main "HOL-Library.Sublist"
begin

section \<open>The initializer of the AI collaboration logs (init.py)\<close>

text \<open>
  The script has one function, \<^verbatim>\<open>init_collaboration\<close>. It prints to the console,
  creates the directory \<^verbatim>\<open>logs\<close> with \<^verbatim>\<open>Path.mkdir(exist_ok=True)\<close>, and for each of
  three files asks \<^verbatim>\<open>Path.exists()\<close> and, when the answer is no, writes a template with
  \<^verbatim>\<open>Path.write_text\<close>; two templates hold \<^verbatim>\<open>datetime.now().strftime(...)\<close>.

  The embedding passes the world explicitly. A world holds the directory tree below the
  working directory, the creations the operating system refuses, the clock, and the
  sequence of calls made so far with their outcomes. An exception of the script is a
  value \<open>Some e\<close> beside the world in which it was raised.

  What the model takes from the platform: the tree has directories and regular files (no
  links); \<^verbatim>\<open>mkdir\<close> and \<^verbatim>\<open>write_text\<close> can raise, \<^verbatim>\<open>exists\<close>, \<^verbatim>\<open>print\<close> and the clock
  cannot; a creation the system refuses leaves the tree as it was, a write the system
  cuts short leaves the file with what reached it; text is encoded as UTF-8; one process
  runs at a time.
\<close>

subsection \<open>Strings\<close>

text \<open>
  A string is the list of the bytes of its UTF-8 encoding, the encoding of the source
  file; the characters of the source outside ASCII are named here.
\<close>

definition newline :: string where
  "newline = [CHR 0x0A]"

definition apostrophe :: string where
  "apostrophe = [CHR 0x27]"

definition rocket :: string where
  "rocket = [CHR 0xF0, CHR 0x9F, CHR 0x9A, CHR 0x80]"

definition folder :: string where
  "folder = [CHR 0xF0, CHR 0x9F, CHR 0x93, CHR 0x81]"

definition check_mark :: string where
  "check_mark = [CHR 0xE2, CHR 0x9C, CHR 0x85]"

definition page :: string where
  "page = [CHR 0xF0, CHR 0x9F, CHR 0x93, CHR 0x84]"

definition arrow :: string where
  "arrow = [CHR 0xE2, CHR 0x86, CHR 0x92]"

definition clipboard :: string where
  "clipboard = [CHR 0xF0, CHR 0x9F, CHR 0x93, CHR 0x8B]"

definition keycap :: string where
  "keycap = [CHR 0xEF, CHR 0xB8, CHR 0x8F, CHR 0xE2, CHR 0x83, CHR 0xA3]"

definition sparkles :: string where
  "sparkles = [CHR 0xE2, CHR 0x9C, CHR 0xA8]"

definition tee :: string where
  "tee = [CHR 0xE2, CHR 0x94, CHR 0x9C]"

definition dash :: string where
  "dash = [CHR 0xE2, CHR 0x94, CHR 0x80]"

definition corner :: string where
  "corner = [CHR 0xE2, CHR 0x94, CHR 0x94]"

text \<open>A triple-quoted literal whose every line ends in a line feed.\<close>

definition unlines :: "string list \<Rightarrow> string" where
  "unlines ls = concat (map (\<lambda>l. l @ newline) ls)"

subsection \<open>The clock and \<^verbatim>\<open>strftime\<close>\<close>

record datetime =
  year :: nat
  month :: nat
  day :: nat
  hour :: nat
  minute :: nat
  second :: nat
  microsecond :: nat

text \<open>The fields of a \<^verbatim>\<open>datetime\<close> object are in these ranges by construction.\<close>

definition valid_datetime :: "datetime \<Rightarrow> bool" where
  "valid_datetime t =
     (1 \<le> year t \<and> year t \<le> 9999 \<and> 1 \<le> month t \<and> month t \<le> 12 \<and>
      1 \<le> day t \<and> day t \<le> 31 \<and> hour t < 24 \<and> minute t < 60 \<and> second t < 60 \<and>
      microsecond t < 1000000)"

text \<open>The character of a digit below ten; \<open>decimal\<close> applies it to nothing else.\<close>

definition digit_char :: "nat \<Rightarrow> char" where
  "digit_char d = ''0123456789'' ! d"

fun decimal :: "nat \<Rightarrow> string" where
  "decimal n = (if n < 10 then [digit_char n] else decimal (n div 10) @ [digit_char (n mod 10)])"

definition zero_pad :: "nat \<Rightarrow> nat \<Rightarrow> string" where
  "zero_pad width n = replicate (width - length (decimal n)) CHR ''0'' @ decimal n"

text \<open>
  \<^verbatim>\<open>strftime('%Y-%m-%d %H:%M:%S')\<close>: the year as a decimal number zero-padded to four
  digits, the other fields zero-padded to two, as the library documents the directives.
\<close>

definition strftime :: "datetime \<Rightarrow> string" where
  "strftime t =
     zero_pad 4 (year t) @ ''-'' @ zero_pad 2 (month t) @ ''-'' @ zero_pad 2 (day t) @ '' '' @
     zero_pad 2 (hour t) @ '':'' @ zero_pad 2 (minute t) @ '':'' @ zero_pad 2 (second t)"

text \<open>Reading a timestamp back: the number a string of decimal digits denotes.\<close>

definition digit_value :: "char \<Rightarrow> nat" where
  "digit_value c = length (takeWhile (\<lambda>d. d \<noteq> c) ''0123456789'')"

definition number_of :: "string \<Rightarrow> nat" where
  "number_of s = foldl (\<lambda>acc c. 10 * acc + digit_value c) 0 s"

definition is_digit :: "char \<Rightarrow> bool" where
  "is_digit c = (c \<in> set ''0123456789'')"

text \<open>The time a string of the form \<^verbatim>\<open>YYYY-MM-DD HH:MM:SS\<close> denotes, to the second.\<close>

definition read_timestamp :: "string \<Rightarrow> datetime" where
  "read_timestamp s =
     \<lparr>year = number_of (take 4 s), month = number_of (take 2 (drop 5 s)),
      day = number_of (take 2 (drop 8 s)), hour = number_of (take 2 (drop 11 s)),
      minute = number_of (take 2 (drop 14 s)), second = number_of (take 2 (drop 17 s)),
      microsecond = 0\<rparr>"

text \<open>The shape \<^verbatim>\<open>YYYY-MM-DD HH:MM:SS\<close>: nineteen characters, digits around the separators.\<close>

definition timestamp_shape :: "string \<Rightarrow> bool" where
  "timestamp_shape s =
     (length s = 19 \<and>
      list_all is_digit (take 4 s) \<and> s ! 4 = CHR ''-'' \<and>
      list_all is_digit (take 2 (drop 5 s)) \<and> s ! 7 = CHR ''-'' \<and>
      list_all is_digit (take 2 (drop 8 s)) \<and> s ! 10 = CHR '' '' \<and>
      list_all is_digit (take 2 (drop 11 s)) \<and> s ! 13 = CHR '':'' \<and>
      list_all is_digit (take 2 (drop 14 s)) \<and> s ! 16 = CHR '':'' \<and>
      list_all is_digit (take 2 (drop 17 s)))"

subsection \<open>The directory tree\<close>

text \<open>
  A path is the list of its components below the working directory, so \<open>[]\<close> is the
  working directory itself (\<^verbatim>\<open>Path('.')\<close>, its own parent). An entry is a directory or a
  regular file with its content.
\<close>

type_synonym path = "string list"

datatype node = Dir | File string

datatype error =
    FileExistsError
  | FileNotFoundError
  | NotADirectoryError
  | IsADirectoryError
  | PermissionError
  | OSError

type_synonym tree = "path \<rightharpoonup> node"

text \<open>
  What the operating system does when an entry is to be created at a path and it does
  not simply let it through. Either it refuses the creation with an error and nothing is
  created (no permission, a read-only disk), or it lets the file be opened and raises
  the error when the text is written, after so many bytes have reached the file (a full
  disk, a quota): the file is then there, empty or cut short.
\<close>

datatype refusal = Denied error | CutShort error nat

type_synonym refusals = "path \<rightharpoonup> refusal"

definition denied :: "refusals \<Rightarrow> path \<Rightarrow> error option" where
  "denied r p = (case r p of Some (Denied e) \<Rightarrow> Some e | _ \<Rightarrow> None)"

definition node_at :: "tree \<Rightarrow> path \<Rightarrow> node option" where
  "node_at t p = (if p = [] then Some Dir else t p)"

text \<open>\<^verbatim>\<open>os.mkdir\<close>: one directory, whose parent must be a directory.\<close>

definition os_mkdir :: "tree \<Rightarrow> refusals \<Rightarrow> path \<Rightarrow> error + tree" where
  "os_mkdir t r p =
     (if node_at t p \<noteq> None then Inl FileExistsError
      else case node_at t (butlast p) of
             None \<Rightarrow> Inl FileNotFoundError
           | Some (File c) \<Rightarrow> Inl NotADirectoryError
           | Some Dir \<Rightarrow> (case denied r p of Some e \<Rightarrow> Inl e | None \<Rightarrow> Inr (t(p \<mapsto> Dir))))"

text \<open>
  \<^verbatim>\<open>Path.mkdir(parents, exist_ok)\<close> of pathlib: it calls \<^verbatim>\<open>os.mkdir\<close>; on
  \<^verbatim>\<open>FileNotFoundError\<close> with \<^verbatim>\<open>parents\<close> it makes the parent first and tries again; any
  other error is dropped when \<^verbatim>\<open>exist_ok\<close> is set and the path is a directory. The tree
  is returned in both outcomes: parents made before a failure stay.
\<close>

function path_mkdir :: "tree \<Rightarrow> refusals \<Rightarrow> path \<Rightarrow> bool \<Rightarrow> bool \<Rightarrow> error option \<times> tree" where
  "path_mkdir t r p parents exist_ok =
     (case os_mkdir t r p of
        Inr t' \<Rightarrow> (None, t')
      | Inl e \<Rightarrow>
          if e = FileNotFoundError then
            (if \<not> parents \<or> p = [] then (Some e, t)
             else case path_mkdir t r (butlast p) True True of
                    (Some e', t') \<Rightarrow> (Some e', t')
                  | (None, t') \<Rightarrow> path_mkdir t' r p False exist_ok)
          else if \<not> exist_ok \<or> node_at t p \<noteq> Some Dir then (Some e, t)
          else (None, t))"
  by pat_completeness auto
termination
  by (relation "measure (\<lambda>(t, r, p, parents, exist_ok). 2 * length p + (if parents then 1 else 0))")
     auto

text \<open>
  \<^verbatim>\<open>Path.write_text\<close> of pathlib is \<^verbatim>\<open>with self.open(mode='w') as f: return f.write(data)\<close>.
  Opening creates the file empty, or empties the file that is there.
\<close>

definition path_open :: "tree \<Rightarrow> refusals \<Rightarrow> path \<Rightarrow> error + tree" where
  "path_open t r p =
     (case node_at t (butlast p) of
        None \<Rightarrow> Inl FileNotFoundError
      | Some (File c) \<Rightarrow> Inl NotADirectoryError
      | Some Dir \<Rightarrow>
          if node_at t p = Some Dir then Inl IsADirectoryError
          else case denied r p of Some e \<Rightarrow> Inl e | None \<Rightarrow> Inr (t(p \<mapsto> File [])))"

text \<open>
  Writing to the open file and closing it: the text is the content of the file, or the
  write is cut short, the bytes that reached the file stay, and the error is raised.
\<close>

definition file_write :: "tree \<Rightarrow> refusals \<Rightarrow> path \<Rightarrow> string \<Rightarrow> error option \<times> tree" where
  "file_write t r p data =
     (case r p of
        Some (CutShort e n) \<Rightarrow> (Some e, t(p \<mapsto> File (take n data)))
      | _ \<Rightarrow> (None, t(p \<mapsto> File data)))"

definition path_write_text :: "tree \<Rightarrow> refusals \<Rightarrow> path \<Rightarrow> string \<Rightarrow> error option \<times> tree" where
  "path_write_text t r p data =
     (case path_open t r p of
        Inl e \<Rightarrow> (Some e, t)
      | Inr t' \<Rightarrow> file_write t' r p data)"

text \<open>
  What a call of \<^verbatim>\<open>write_text\<close> on an absent path in a directory raises, and what it
  leaves at the path.
\<close>

definition raised :: "refusal option \<Rightarrow> error option" where
  "raised x = (case x of None \<Rightarrow> None | Some (Denied e) \<Rightarrow> Some e | Some (CutShort e n) \<Rightarrow> Some e)"

definition remains :: "refusal option \<Rightarrow> string \<Rightarrow> node option" where
  "remains x data =
     (case x of
        None \<Rightarrow> Some (File data)
      | Some (Denied e) \<Rightarrow> None
      | Some (CutShort e n) \<Rightarrow> Some (File (take n data)))"

subsection \<open>The world and the calls of the script\<close>

datatype event =
    Printed string
  | MkdirCall path "error option"
  | ExistsCall path bool
  | NowCall datetime
  | WriteTextCall path string "error option"

record world =
  tree_of :: tree
  refused :: refusals
  clock :: "nat \<Rightarrow> datetime"
  ticks :: nat
  events :: "event list"

definition print :: "string \<Rightarrow> world \<Rightarrow> world" where
  "print s w = w\<lparr>events := events w @ [Printed s]\<rparr>"

definition mkdir :: "path \<Rightarrow> bool \<Rightarrow> bool \<Rightarrow> world \<Rightarrow> error option \<times> world" where
  "mkdir p parents exist_ok w =
     (case path_mkdir (tree_of w) (refused w) p parents exist_ok of
        (res, t') \<Rightarrow> (res, w\<lparr>tree_of := t', events := events w @ [MkdirCall p res]\<rparr>))"

definition exists :: "path \<Rightarrow> world \<Rightarrow> bool \<times> world" where
  "exists p w =
     (let b = (node_at (tree_of w) p \<noteq> None)
      in (b, w\<lparr>events := events w @ [ExistsCall p b]\<rparr>))"

definition now :: "world \<Rightarrow> datetime \<times> world" where
  "now w =
     (let t = clock w (ticks w)
      in (t, w\<lparr>ticks := Suc (ticks w), events := events w @ [NowCall t]\<rparr>))"

definition write_text :: "path \<Rightarrow> string \<Rightarrow> world \<Rightarrow> error option \<times> world" where
  "write_text p data w =
     (case path_write_text (tree_of w) (refused w) p data of
        (res, t') \<Rightarrow> (res, w\<lparr>tree_of := t', events := events w @ [WriteTextCall p data res]\<rparr>))"

subsection \<open>The paths and the templates\<close>

definition logs_dir :: path where
  "logs_dir = [''logs'']"

definition ai_chat :: path where
  "ai_chat = logs_dir @ [''ai_chat.md'']"

definition dev_log :: path where
  "dev_log = logs_dir @ [''dev_log.md'']"

definition archived_logs :: path where
  "archived_logs = logs_dir @ [''archived_logs.md'']"

definition ai_chat_text :: string where
  "ai_chat_text = unlines
     [''<!-- DEVELOPMENT WORKFLOW INSTRUCTIONS'',
      ''CURSOR (Cmd+Shift+D): '',
      ''1. Read this file (logs/ai_chat.md)'',
      ''2. Look for CURSOR_TURN in the last message'',
      ''3. Execute your current phase (PLAN '' @ arrow @ '' DELIVERABLES '' @ arrow @
        '' DEVELOP '' @ arrow @ '' REVIEW)'',
      ''4. Write timestamped response below'',
      ''5. End with COPILOT_TURN or HUMAN_APPROVAL_NEEDED'',
      [],
      ''COPILOT (Cmd+Shift+R):'',
      ''1. Read this file (logs/ai_chat.md)'',
      ''2. Look for COPILOT_TURN in the last message'',
      ''3. Review based on phase (PRE-DEV '' @ arrow @ '' CODE '' @ arrow @ '' FINAL)'',
      ''4. Write timestamped response below'',
      ''5. End with CURSOR_TURN or HUMAN_APPROVAL_NEEDED'',
      [],
      ''Keep messages concise. Update dev_log.md with summaries.'',
      ''-->'',
      [],
      ''# AI Development Chat'',
      [],
      ''## Current Task: None'',
      ''## Current Phase: PLAN'',
      [],
      ''---'',
      [],
      ''START - Press Cmd+Shift+D in Cursor to begin the first development cycle.'']"

text \<open>The two f-strings, as functions of the formatted time.\<close>

definition dev_log_text :: "string \<Rightarrow> string" where
  "dev_log_text stamp =
     unlines [''# Development Log'', []] @ ''Started: '' @ stamp @
     unlines [[], [], ''## PREDEVELOPMENT PLAN'', [], ''## PREDEVELOPMENT DELIVERABLES'', [],
              ''## POST DEVELOPMENT'', [], ''---'']"

definition archived_logs_text :: "string \<Rightarrow> string" where
  "archived_logs_text stamp =
     unlines [''# Archived Logs'', []] @ ''Created: '' @ stamp @
     unlines [[], [], ''This file stores older conversations and logs for reference.'', [],
              ''---'']"

definition rule_line :: string where
  "rule_line = replicate 60 CHR ''=''"

text \<open>The arguments of the prints after the last file, in the order of the source.\<close>

definition setup_instructions :: "string list" where
  "setup_instructions =
     [newline @ rule_line,
      clipboard @ '' SETUP INSTRUCTIONS'',
      rule_line,
      newline @ ''1'' @ keycap @ ''  In Cursor, set up this keyboard shortcut:'',
      ''   Cmd/Ctrl + Shift + D '' @ arrow @ '' Triggers development cycle'',
      newline @ ''   Give Cursor this simple instruction:'',
      ''   '' @ apostrophe @ ''Read logs/ai_chat.md and follow the instructions at the top'' @
        apostrophe,
      newline @ ''2'' @ keycap @ ''  In VSCode with Copilot, set up:'',
      ''   Cmd/Ctrl + Shift + R '' @ arrow @ '' Triggers review cycle'',
      newline @ ''   Give Copilot this simple instruction:'',
      ''   '' @ apostrophe @ ''Read logs/ai_chat.md and follow the instructions at the top'' @
        apostrophe,
      newline @ ''3'' @ keycap @ ''  Run the status dashboard (optional):'',
      ''   python status.py'',
      newline @ ''4'' @ keycap @ ''  Start development:'',
      ''   Press Cmd+Shift+D in Cursor'',
      newline @ rule_line,
      sparkles @ '' Ready! The AIs will communicate through logs/ai_chat.md'',
      rule_line,
      newline @ folder @ '' Created structure:'',
      ''   logs/'',
      ''   '' @ tee @ dash @ dash @ '' ai_chat.md       (AI communication)'',
      ''   '' @ tee @ dash @ dash @ '' dev_log.md       (Development record)'',
      ''   '' @ corner @ dash @ dash @ '' archived_logs.md (Old conversations)'',
      rule_line]"

subsection \<open>\<^verbatim>\<open>init_collaboration\<close>\<close>

text \<open>The block under \<^verbatim>\<open># Create ai_chat.md in logs\<close>.\<close>

definition create_ai_chat :: "world \<Rightarrow> error option \<times> world" where
  "create_ai_chat w =
     (case exists ai_chat w of
        (present, w1) \<Rightarrow>
          if \<not> present then
            (case write_text ai_chat ai_chat_text w1 of
               (Some e, w2) \<Rightarrow> (Some e, w2)
             | (None, w2) \<Rightarrow> (None, print (check_mark @ '' Created logs/ai_chat.md'') w2))
          else (None, print (page @ '' logs/ai_chat.md already exists'') w1))"

text \<open>
  The block under \<^verbatim>\<open># Create dev_log.md in logs\<close>. The argument of \<^verbatim>\<open>write_text\<close> is
  evaluated first, so the clock is read before the file is opened.
\<close>

definition create_dev_log :: "world \<Rightarrow> error option \<times> world" where
  "create_dev_log w =
     (case exists dev_log w of
        (present, w1) \<Rightarrow>
          if \<not> present then
            (case now w1 of
               (t, w2) \<Rightarrow>
                 (case write_text dev_log (dev_log_text (strftime t)) w2 of
                    (Some e, w3) \<Rightarrow> (Some e, w3)
                  | (None, w3) \<Rightarrow> (None, print (check_mark @ '' Created logs/dev_log.md'') w3)))
          else (None, print (page @ '' logs/dev_log.md already exists'') w1))"

text \<open>The block under \<^verbatim>\<open># Create archived_logs.md in logs\<close>.\<close>

definition create_archived_logs :: "world \<Rightarrow> error option \<times> world" where
  "create_archived_logs w =
     (case exists archived_logs w of
        (present, w1) \<Rightarrow>
          if \<not> present then
            (case now w1 of
               (t, w2) \<Rightarrow>
                 (case write_text archived_logs (archived_logs_text (strftime t)) w2 of
                    (Some e, w3) \<Rightarrow> (Some e, w3)
                  | (None, w3) \<Rightarrow>
                      (None, print (check_mark @ '' Created logs/archived_logs.md'') w3)))
          else (None, print (page @ '' logs/archived_logs.md already exists'') w1))"

text \<open>The block under \<^verbatim>\<open># Show setup instructions\<close>: one print after the other.\<close>

definition show_setup_instructions :: "world \<Rightarrow> world" where
  "show_setup_instructions w = foldl (\<lambda>w' s. print s w') w setup_instructions"

text \<open>
  The function. \<^verbatim>\<open>mkdir\<close> is called with \<^verbatim>\<open>exist_ok=True\<close> and without \<^verbatim>\<open>parents\<close>. There is
  no \<^verbatim>\<open>try\<close> in the source: the first exception ends the function and is its result.
\<close>

definition init_collaboration :: "world \<Rightarrow> error option \<times> world" where
  "init_collaboration w =
     (let w1 = print (rocket @ '' Initializing AI Collaboration System...'') w
      in case mkdir logs_dir False True w1 of
           (Some e, w2) \<Rightarrow> (Some e, w2)
         | (None, w2) \<Rightarrow>
             (let w3 = print (folder @ '' Created logs/ directory'') w2
              in case create_ai_chat w3 of
                   (Some e, w4) \<Rightarrow> (Some e, w4)
                 | (None, w4) \<Rightarrow>
                     (case create_dev_log w4 of
                        (Some e, w5) \<Rightarrow> (Some e, w5)
                      | (None, w5) \<Rightarrow>
                          (case create_archived_logs w5 of
                             (Some e, w6) \<Rightarrow> (Some e, w6)
                           | (None, w6) \<Rightarrow> (None, show_setup_instructions w6)))))"

text \<open>
  The script as a program: \<^verbatim>\<open>init_collaboration()\<close> is its only statement, so the
  interpreter exits with status 0 when the call returns and with status 1 when an
  exception leaves it.
\<close>

definition main :: "world \<Rightarrow> nat \<times> world" where
  "main w = (case init_collaboration w of (None, w') \<Rightarrow> (0, w') | (Some e, w') \<Rightarrow> (1, w'))"

subsection \<open>The function up to the end of each block\<close>

text \<open>
  The result and the world at four points of \<^verbatim>\<open>init_collaboration\<close>: after \<^verbatim>\<open>mkdir\<close> and
  after each of the three blocks, each run in the world the one before it left. A point
  is reached when the results before it are all \<open>None\<close>.
\<close>

definition upto_mkdir :: "world \<Rightarrow> error option \<times> world" where
  "upto_mkdir w =
     mkdir logs_dir False True (print (rocket @ '' Initializing AI Collaboration System...'') w)"

definition upto_ai_chat :: "world \<Rightarrow> error option \<times> world" where
  "upto_ai_chat w =
     create_ai_chat (print (folder @ '' Created logs/ directory'') (snd (upto_mkdir w)))"

definition upto_dev_log :: "world \<Rightarrow> error option \<times> world" where
  "upto_dev_log w = create_dev_log (snd (upto_ai_chat w))"

definition upto_archived_logs :: "world \<Rightarrow> error option \<times> world" where
  "upto_archived_logs w = create_archived_logs (snd (upto_dev_log w))"

subsection \<open>Observations\<close>

text \<open>What a run adds to the record of calls, and what of it reaches the console.\<close>

definition run_events :: "world \<Rightarrow> event list" where
  "run_events w = drop (length (events w)) (events (snd (init_collaboration w)))"

fun printed :: "event list \<Rightarrow> string list" where
  "printed [] = []"
| "printed (Printed s # es) = s # printed es"
| "printed (e # es) = printed es"

definition console :: "world \<Rightarrow> string list" where
  "console w = printed (run_events w)"

text \<open>The calls that touch the directory tree, and the contents handed to \<^verbatim>\<open>write_text\<close>.\<close>

fun is_print :: "event \<Rightarrow> bool" where
  "is_print (Printed s) = True"
| "is_print e = False"

fun is_clock :: "event \<Rightarrow> bool" where
  "is_clock (NowCall t) = True"
| "is_clock e = False"

definition file_calls :: "event list \<Rightarrow> event list" where
  "file_calls es = filter (\<lambda>e. \<not> is_print e \<and> \<not> is_clock e) es"

fun failed :: "event \<Rightarrow> error option" where
  "failed (MkdirCall p res) = res"
| "failed (WriteTextCall p data res) = res"
| "failed e = None"

text \<open>The paths written with success, in the order of the writes.\<close>

fun written :: "event list \<Rightarrow> path list" where
  "written [] = []"
| "written (WriteTextCall p data None # es) = p # written es"
| "written (e # es) = written es"

text \<open>The path a call names; a print and a clock reading name none.\<close>

fun touched :: "event \<Rightarrow> path" where
  "touched (MkdirCall p res) = p"
| "touched (ExistsCall p b) = p"
| "touched (WriteTextCall p data res) = p"
| "touched e = []"

subsection \<open>Some worlds\<close>

text \<open>A world with an empty working directory in which nothing is refused.\<close>

definition steady_clock :: "datetime \<Rightarrow> nat \<Rightarrow> datetime" where
  "steady_clock t n = t\<lparr>second := second t + n\<rparr>"

definition noon :: datetime where
  "noon = \<lparr>year = 2024, month = 3, day = 9, hour = 12, minute = 0, second = 0, microsecond = 0\<rparr>"

definition empty_world :: world where
  "empty_world =
     \<lparr>tree_of = Map.empty, refused = Map.empty, clock = steady_clock noon, ticks = 0, events = []\<rparr>"

text \<open>The same with \<^verbatim>\<open>logs\<close> there as a directory, and with \<^verbatim>\<open>logs\<close> there as a regular file.\<close>

definition logs_world :: world where
  "logs_world = empty_world\<lparr>tree_of := [logs_dir \<mapsto> Dir]\<rparr>"

definition blocked_world :: world where
  "blocked_world = empty_world\<lparr>tree_of := [logs_dir \<mapsto> File ''not a directory'']\<rparr>"

text \<open>A directory \<^verbatim>\<open>logs\<close> that holds a chat log someone has written to.\<close>

definition used_world :: world where
  "used_world = empty_world\<lparr>tree_of := [logs_dir \<mapsto> Dir, ai_chat \<mapsto> File ''CURSOR_TURN'']\<rparr>"

text \<open>The same directory with another content in the chat log, and a file beside it.\<close>

definition reused_world :: world where
  "reused_world =
     empty_world\<lparr>tree_of := [logs_dir \<mapsto> Dir, ai_chat \<mapsto> File ''COPILOT_TURN'',
                              logs_dir @ [''notes.txt''] \<mapsto> File ''kept'']\<rparr>"

text \<open>An empty directory \<^verbatim>\<open>logs\<close> in which the system lets nobody create \<^verbatim>\<open>dev_log.md\<close>.\<close>

definition guarded_world :: world where
  "guarded_world = logs_world\<lparr>refused := [dev_log \<mapsto> Denied PermissionError]\<rparr>"

text \<open>
  An empty directory \<^verbatim>\<open>logs\<close> on a full disk: each of the three files can be opened, and
  no byte of its text reaches it.
\<close>

definition full_world :: world where
  "full_world =
     logs_world\<lparr>refused := [ai_chat \<mapsto> CutShort OSError 0, dev_log \<mapsto> CutShort OSError 0,
                            archived_logs \<mapsto> CutShort OSError 0]\<rparr>"

section \<open>The format of a timestamp\<close>

declare decimal.simps [simp del]

lemma digit_cases:
  "d < (10::nat) \<Longrightarrow>
   d = 0 \<or> d = 1 \<or> d = 2 \<or> d = 3 \<or> d = 4 \<or> d = 5 \<or> d = 6 \<or> d = 7 \<or> d = 8 \<or> d = 9"
  by arith

lemma digit_char_digit: "d < 10 \<Longrightarrow> is_digit (digit_char d)"
  by (drule digit_cases) (auto simp add: is_digit_def digit_char_def)

lemma digit_value_char: "d < 10 \<Longrightarrow> digit_value (digit_char d) = d"
  by (drule digit_cases) (auto simp add: digit_value_def digit_char_def)

lemma decimal_digits: "list_all is_digit (decimal n)"
proof (induction n rule: decimal.induct)
  case (1 n)
  then show ?case
    by (subst decimal.simps) (simp add: digit_char_digit)
qed

lemma number_of_snoc: "number_of (s @ [c]) = 10 * number_of s + digit_value c"
  by (simp add: number_of_def)

lemma number_of_decimal: "number_of (decimal n) = n"
proof (induction n rule: decimal.induct)
  case (1 n)
  show ?case
  proof (cases "n < 10")
    case True
    then show ?thesis
      by (subst decimal.simps) (simp add: number_of_def digit_value_char)
  next
    case False
    then have "number_of (decimal n) = 10 * number_of (decimal (n div 10)) + n mod 10"
      by (subst decimal.simps) (simp add: number_of_snoc digit_value_char)
    with False "1.IH" show ?thesis by simp
  qed
qed

lemma length_decimal: "0 < k \<Longrightarrow> n < 10 ^ k \<Longrightarrow> length (decimal n) \<le> k"
proof (induction n arbitrary: k rule: decimal.induct)
  case (1 n)
  show ?case
  proof (cases "n < 10")
    case True
    with "1.prems" show ?thesis by (subst decimal.simps) simp
  next
    case False
    obtain j where k: "k = Suc j"
      using "1.prems"(1) by (cases k) simp_all
    have j: "0 < j"
    proof (rule ccontr)
      assume "\<not> 0 < j"
      with k "1.prems"(2) False show False by simp
    qed
    have "n div 10 < 10 ^ j"
      using "1.prems"(2) k by (simp add: less_mult_imp_div_less mult.commute)
    then have "length (decimal (n div 10)) \<le> j"
      using "1.IH" [OF False j] by simp
    with False k show ?thesis by (subst decimal.simps) simp
  qed
qed

lemma number_of_zeros: "number_of (replicate m CHR ''0'' @ s) = number_of s"
proof -
  have "foldl (\<lambda>acc c. 10 * acc + digit_value c) 0 (replicate m CHR ''0'') = 0"
    by (induction m) (simp_all add: digit_value_def)
  then show ?thesis by (simp add: number_of_def)
qed

lemma zeros_digits: "list_all is_digit (replicate m CHR ''0'')"
  by (induction m) (simp_all add: is_digit_def)

lemma zero_pad_props:
  assumes "0 < k" and "n < 10 ^ k"
  shows "length (zero_pad k n) = k" and "list_all is_digit (zero_pad k n)"
    and "number_of (zero_pad k n) = n"
  using length_decimal [OF assms]
  by (simp_all add: zero_pad_def decimal_digits number_of_zeros number_of_decimal zeros_digits)

lemma stamp_parts:
  assumes "length a = 4" "length b = 2" "length c = 2" "length d = 2" "length e = 2" "length f = 2"
  defines "s \<equiv> a @ ''-'' @ b @ ''-'' @ c @ '' '' @ d @ '':'' @ e @ '':'' @ f"
  shows "length s = 19" "take 4 s = a" "take 2 (drop 5 s) = b" "take 2 (drop 8 s) = c"
    "take 2 (drop 11 s) = d" "take 2 (drop 14 s) = e" "take 2 (drop 17 s) = f" "drop 17 s = f"
    "s ! 4 = CHR ''-''" "s ! 7 = CHR ''-''" "s ! 10 = CHR '' ''" "s ! 13 = CHR '':''"
    "s ! 16 = CHR '':''"
  using assms(1-6) by (simp_all add: s_def nth_append)

lemma strftime_valid:
  assumes "valid_datetime t"
  shows "timestamp_shape (strftime t)"
    and "number_of (take 4 (strftime t)) = year t"
    and "number_of (take 2 (drop 5 (strftime t))) = month t"
    and "number_of (take 2 (drop 8 (strftime t))) = day t"
    and "number_of (take 2 (drop 11 (strftime t))) = hour t"
    and "number_of (take 2 (drop 14 (strftime t))) = minute t"
    and "number_of (take 2 (drop 17 (strftime t))) = second t"
proof -
  have y: "year t < 10 ^ 4" and m: "month t < 10 ^ 2" and d: "day t < 10 ^ 2"
    and h: "hour t < 10 ^ 2" and mi: "minute t < 10 ^ 2" and s: "second t < 10 ^ 2"
    using assms by (simp_all add: valid_datetime_def)
  note len = zero_pad_props(1) [OF _ y] zero_pad_props(1) [OF _ m] zero_pad_props(1) [OF _ d]
    zero_pad_props(1) [OF _ h] zero_pad_props(1) [OF _ mi] zero_pad_props(1) [OF _ s]
  note parts = stamp_parts [of "zero_pad 4 (year t)" "zero_pad 2 (month t)" "zero_pad 2 (day t)"
      "zero_pad 2 (hour t)" "zero_pad 2 (minute t)" "zero_pad 2 (second t)", folded strftime_def]
  show "timestamp_shape (strftime t)"
    unfolding timestamp_shape_def
    using y m d h mi s by (simp add: parts len zero_pad_props(2))
  show "number_of (take 4 (strftime t)) = year t"
    using y by (simp add: parts len zero_pad_props(3))
  show "number_of (take 2 (drop 5 (strftime t))) = month t"
    using m by (simp add: parts len zero_pad_props(3))
  show "number_of (take 2 (drop 8 (strftime t))) = day t"
    using d by (simp add: parts len zero_pad_props(3))
  show "number_of (take 2 (drop 11 (strftime t))) = hour t"
    using h by (simp add: parts len zero_pad_props(3))
  show "number_of (take 2 (drop 14 (strftime t))) = minute t"
    using mi by (simp add: parts len zero_pad_props(3))
  show "number_of (take 2 (drop 17 (strftime t))) = second t"
    using s by (simp add: parts len zero_pad_props(3))
qed


section \<open>The calls one at a time\<close>

declare path_mkdir.simps [simp del]

lemma paths_distinct:
  "logs_dir \<noteq> ai_chat" "logs_dir \<noteq> dev_log" "logs_dir \<noteq> archived_logs"
  "ai_chat \<noteq> dev_log" "ai_chat \<noteq> archived_logs" "dev_log \<noteq> archived_logs"
  "ai_chat \<noteq> logs_dir" "dev_log \<noteq> logs_dir" "archived_logs \<noteq> logs_dir"
  "dev_log \<noteq> ai_chat" "archived_logs \<noteq> ai_chat" "archived_logs \<noteq> dev_log"
  by (simp_all add: logs_dir_def ai_chat_def dev_log_def archived_logs_def)

lemma paths_nonempty:
  "logs_dir \<noteq> []" "ai_chat \<noteq> []" "dev_log \<noteq> []" "archived_logs \<noteq> []"
  by (simp_all add: logs_dir_def ai_chat_def dev_log_def archived_logs_def)

lemma parent_of:
  "butlast logs_dir = []" "butlast ai_chat = logs_dir" "butlast dev_log = logs_dir"
  "butlast archived_logs = logs_dir"
  by (simp_all add: logs_dir_def ai_chat_def dev_log_def archived_logs_def)

lemma path_mkdir_logs:
  "path_mkdir t r logs_dir False True =
     (case t logs_dir of
        Some Dir \<Rightarrow> (None, t)
      | Some (File c) \<Rightarrow> (Some FileExistsError, t)
      | None \<Rightarrow>
          (case denied r logs_dir of
             Some e \<Rightarrow> (Some e, t)
           | None \<Rightarrow> (None, t(logs_dir \<mapsto> Dir))))"
  by (subst path_mkdir.simps)
     (simp add: os_mkdir_def node_at_def paths_nonempty parent_of split: option.splits node.splits)

lemma path_mkdir_cwd: "path_mkdir t r [] True True = (None, t)"
  by (subst path_mkdir.simps) (simp add: os_mkdir_def node_at_def)

lemma path_mkdir_logs_parents:
  "path_mkdir t r logs_dir True True = path_mkdir t r logs_dir False True"
  apply (subst path_mkdir.simps)
  apply (simp add: path_mkdir_cwd path_mkdir_logs os_mkdir_def node_at_def paths_nonempty parent_of
      split: option.splits node.splits)
  done


lemma mkdir_logs:
  "mkdir logs_dir False True w =
     (case tree_of w logs_dir of
        Some Dir \<Rightarrow> (None, w\<lparr>events := events w @ [MkdirCall logs_dir None]\<rparr>)
      | Some (File c) \<Rightarrow>
          (Some FileExistsError, w\<lparr>events := events w @ [MkdirCall logs_dir (Some FileExistsError)]\<rparr>)
      | None \<Rightarrow>
          (case denied (refused w) logs_dir of
             Some e \<Rightarrow> (Some e, w\<lparr>events := events w @ [MkdirCall logs_dir (Some e)]\<rparr>)
           | None \<Rightarrow>
               (None, w\<lparr>tree_of := (tree_of w)(logs_dir \<mapsto> Dir),
                         events := events w @ [MkdirCall logs_dir None]\<rparr>)))"
  by (simp add: mkdir_def path_mkdir_logs split: option.splits node.splits)

lemma denied_None [simp]: "r p = None \<Longrightarrow> denied r p = None"
  by (simp add: denied_def)

lemma raised_None [simp]: "raised x = None \<longleftrightarrow> x = None"
  by (simp add: raised_def split: option.splits refusal.splits)

lemma remains_None [simp]: "remains None data = Some (File data)"
  by (simp add: remains_def)

lemma path_write_text_absent:
  assumes "t (butlast p) = Some Dir" and "butlast p \<noteq> []" and "p \<noteq> []" and "t p = None"
  shows "path_write_text t r p data = (raised (r p), t(p := remains (r p) data))"
  using assms
  by (auto simp add: path_write_text_def path_open_def file_write_def node_at_def denied_def
      raised_def remains_def split: option.splits refusal.splits)

lemma create_ai_chat_eq:
  assumes "tree_of w logs_dir = Some Dir"
  shows "create_ai_chat w =
     (case tree_of w ai_chat of
        Some n \<Rightarrow>
          (None, w\<lparr>events := events w @
             [ExistsCall ai_chat True, Printed (page @ '' logs/ai_chat.md already exists'')]\<rparr>)
      | None \<Rightarrow>
          (raised (refused w ai_chat),
           w\<lparr>tree_of := (tree_of w)(ai_chat := remains (refused w ai_chat) ai_chat_text),
             events := events w @
               ExistsCall ai_chat False #
               WriteTextCall ai_chat ai_chat_text (raised (refused w ai_chat)) #
               (if refused w ai_chat = None
                then [Printed (check_mark @ '' Created logs/ai_chat.md'')] else [])\<rparr>))"
proof (cases "tree_of w ai_chat")
  case None
  then have "path_write_text (tree_of w) (refused w) ai_chat ai_chat_text =
      (raised (refused w ai_chat), (tree_of w)(ai_chat := remains (refused w ai_chat) ai_chat_text))"
    using assms by (intro path_write_text_absent) (simp_all add: parent_of paths_nonempty)
  with None show ?thesis
    by (cases "refused w ai_chat")
      (simp_all add: create_ai_chat_def exists_def write_text_def node_at_def print_def
        paths_nonempty Let_def raised_def split: refusal.splits)
next
  case (Some n)
  then show ?thesis
    by (simp add: create_ai_chat_def exists_def node_at_def print_def paths_nonempty Let_def)
qed

lemma create_dev_log_eq:
  assumes "tree_of w logs_dir = Some Dir"
  shows "create_dev_log w =
     (case tree_of w dev_log of
        Some n \<Rightarrow>
          (None, w\<lparr>events := events w @
             [ExistsCall dev_log True, Printed (page @ '' logs/dev_log.md already exists'')]\<rparr>)
      | None \<Rightarrow>
          (let t = clock w (ticks w); data = dev_log_text (strftime t) in
           (raised (refused w dev_log),
            w\<lparr>tree_of := (tree_of w)(dev_log := remains (refused w dev_log) data),
              ticks := Suc (ticks w),
              events := events w @
                ExistsCall dev_log False # NowCall t #
                WriteTextCall dev_log data (raised (refused w dev_log)) #
                (if refused w dev_log = None
                 then [Printed (check_mark @ '' Created logs/dev_log.md'')] else [])\<rparr>)))"
proof (cases "tree_of w dev_log")
  case None
  then have "path_write_text (tree_of w) (refused w) dev_log data =
      (raised (refused w dev_log), (tree_of w)(dev_log := remains (refused w dev_log) data))"
    for data
    using assms by (intro path_write_text_absent) (simp_all add: parent_of paths_nonempty)
  with None show ?thesis
    by (cases "refused w dev_log")
      (simp_all add: create_dev_log_def exists_def write_text_def node_at_def print_def now_def
        paths_nonempty Let_def raised_def split: refusal.splits)
next
  case (Some n)
  then show ?thesis
    by (simp add: create_dev_log_def exists_def node_at_def print_def paths_nonempty Let_def)
qed

lemma create_archived_logs_eq:
  assumes "tree_of w logs_dir = Some Dir"
  shows "create_archived_logs w =
     (case tree_of w archived_logs of
        Some n \<Rightarrow>
          (None, w\<lparr>events := events w @
             [ExistsCall archived_logs True,
              Printed (page @ '' logs/archived_logs.md already exists'')]\<rparr>)
      | None \<Rightarrow>
          (let t = clock w (ticks w); data = archived_logs_text (strftime t) in
           (raised (refused w archived_logs),
            w\<lparr>tree_of := (tree_of w)(archived_logs := remains (refused w archived_logs) data),
              ticks := Suc (ticks w),
              events := events w @
                ExistsCall archived_logs False # NowCall t #
                WriteTextCall archived_logs data (raised (refused w archived_logs)) #
                (if refused w archived_logs = None
                 then [Printed (check_mark @ '' Created logs/archived_logs.md'')] else [])\<rparr>)))"
proof (cases "tree_of w archived_logs")
  case None
  then have "path_write_text (tree_of w) (refused w) archived_logs data =
      (raised (refused w archived_logs),
       (tree_of w)(archived_logs := remains (refused w archived_logs) data))"
    for data
    using assms by (intro path_write_text_absent) (simp_all add: parent_of paths_nonempty)
  with None show ?thesis
    by (cases "refused w archived_logs")
      (simp_all add: create_archived_logs_def exists_def write_text_def node_at_def print_def
        now_def paths_nonempty Let_def raised_def split: refusal.splits)
next
  case (Some n)
  then show ?thesis
    by (simp add: create_archived_logs_def exists_def node_at_def print_def paths_nonempty
        Let_def)
qed

lemma show_setup_instructions_eq:
  "show_setup_instructions w = w\<lparr>events := events w @ map Printed setup_instructions\<rparr>"
proof -
  have "foldl (\<lambda>w' s. print s w') w ss = w\<lparr>events := events w @ map Printed ss\<rparr>" for ss
    by (induction ss arbitrary: w) (simp_all add: print_def)
  then show ?thesis by (simp add: show_setup_instructions_def)
qed



lemma init_collaboration_stages:
  "init_collaboration w =
     (if fst (upto_mkdir w) \<noteq> None then upto_mkdir w
      else if fst (upto_ai_chat w) \<noteq> None then upto_ai_chat w
      else if fst (upto_dev_log w) \<noteq> None then upto_dev_log w
      else if fst (upto_archived_logs w) \<noteq> None then upto_archived_logs w
      else (None, show_setup_instructions (snd (upto_archived_logs w))))"
  by (auto simp add: init_collaboration_def upto_mkdir_def upto_ai_chat_def upto_dev_log_def
      upto_archived_logs_def Let_def split: prod.splits option.splits)

lemma print_proj [simp]:
  "tree_of (print s w) = tree_of w" "refused (print s w) = refused w"
  "clock (print s w) = clock w" "ticks (print s w) = ticks w"
  "events (print s w) = events w @ [Printed s]"
  by (simp_all add: print_def)

lemma show_proj [simp]:
  "tree_of (show_setup_instructions w) = tree_of w"
  "refused (show_setup_instructions w) = refused w"
  "clock (show_setup_instructions w) = clock w"
  "ticks (show_setup_instructions w) = ticks w"
  "events (show_setup_instructions w) = events w @ map Printed setup_instructions"
  by (simp_all add: show_setup_instructions_eq)

subsection \<open>After \<^verbatim>\<open>mkdir\<close>\<close>

lemma upto_mkdir_fst:
  "fst (upto_mkdir w) =
     (case tree_of w logs_dir of
        Some Dir \<Rightarrow> None
      | Some (File c) \<Rightarrow> Some FileExistsError
      | None \<Rightarrow> denied (refused w) logs_dir)"
  by (simp add: upto_mkdir_def mkdir_logs split: option.splits node.splits)

lemma upto_mkdir_env [simp]:
  "refused (snd (upto_mkdir w)) = refused w"
  "clock (snd (upto_mkdir w)) = clock w"
  "ticks (snd (upto_mkdir w)) = ticks w"
  by (simp_all add: upto_mkdir_def mkdir_logs split: option.splits node.splits)

lemma upto_mkdir_tree:
  "tree_of (snd (upto_mkdir w)) =
     (if fst (upto_mkdir w) = None then (tree_of w)(logs_dir \<mapsto> Dir) else tree_of w)"
  by (auto simp add: upto_mkdir_def mkdir_logs split: option.splits node.splits)

lemma upto_mkdir_events:
  "events (snd (upto_mkdir w)) =
     events w @ [Printed (rocket @ '' Initializing AI Collaboration System...''),
                 MkdirCall logs_dir (fst (upto_mkdir w))]"
  by (simp add: upto_mkdir_def mkdir_logs split: option.splits node.splits)

subsection \<open>After the block of \<^verbatim>\<open>ai_chat.md\<close>\<close>

lemma upto_ai_chat_env [simp]:
  "refused (snd (upto_ai_chat w)) = refused w"
  "clock (snd (upto_ai_chat w)) = clock w"
  "ticks (snd (upto_ai_chat w)) = ticks w"
  by (simp_all add: upto_ai_chat_def create_ai_chat_def exists_def write_text_def Let_def
      split: prod.splits option.splits)

lemma upto_ai_chat_fst:
  assumes "fst (upto_mkdir w) = None"
  shows "fst (upto_ai_chat w) = (if tree_of w ai_chat = None then raised (refused w ai_chat) else None)"
  using assms
  by (simp add: upto_ai_chat_def create_ai_chat_eq upto_mkdir_tree paths_distinct
      split: option.splits)

lemma upto_ai_chat_tree:
  assumes "fst (upto_mkdir w) = None"
  shows "tree_of (snd (upto_ai_chat w)) =
     (if tree_of w ai_chat = None
      then (tree_of (snd (upto_mkdir w)))(ai_chat := remains (refused w ai_chat) ai_chat_text)
      else tree_of (snd (upto_mkdir w)))"
  using assms
  by (simp add: upto_ai_chat_def create_ai_chat_eq upto_mkdir_tree paths_distinct
      split: option.splits)

lemma upto_ai_chat_events:
  assumes "fst (upto_mkdir w) = None"
  shows "events (snd (upto_ai_chat w)) =
     events (snd (upto_mkdir w)) @
     [Printed (folder @ '' Created logs/ directory''), ExistsCall ai_chat (tree_of w ai_chat \<noteq> None)] @
     (if tree_of w ai_chat \<noteq> None then [Printed (page @ '' logs/ai_chat.md already exists'')]
      else WriteTextCall ai_chat ai_chat_text (fst (upto_ai_chat w)) #
           (if fst (upto_ai_chat w) = None then [Printed (check_mark @ '' Created logs/ai_chat.md'')]
            else []))"
  using assms
  by (simp add: upto_ai_chat_def create_ai_chat_eq upto_mkdir_tree paths_distinct
      split: option.splits)


lemma upto_ai_chat_logs:
  assumes "fst (upto_mkdir w) = None"
  shows "tree_of (snd (upto_ai_chat w)) logs_dir = Some Dir"
  using assms by (simp add: upto_ai_chat_tree upto_mkdir_tree paths_distinct)

lemma upto_ai_chat_other:
  assumes "fst (upto_mkdir w) = None" and "q \<noteq> logs_dir" and "q \<noteq> ai_chat"
  shows "tree_of (snd (upto_ai_chat w)) q = tree_of w q"
  using assms by (simp add: upto_ai_chat_tree upto_mkdir_tree)

subsection \<open>After the block of \<^verbatim>\<open>dev_log.md\<close>\<close>

lemma upto_dev_log_env [simp]:
  "refused (snd (upto_dev_log w)) = refused w"
  "clock (snd (upto_dev_log w)) = clock w"
  by (simp_all add: upto_dev_log_def create_dev_log_def exists_def write_text_def now_def Let_def
      split: prod.splits option.splits)

lemma upto_dev_log_fst:
  assumes "fst (upto_mkdir w) = None" and "fst (upto_ai_chat w) = None"
  shows "fst (upto_dev_log w) = (if tree_of w dev_log = None then raised (refused w dev_log) else None)"
  using assms
  by (simp add: upto_dev_log_def create_dev_log_eq upto_ai_chat_logs upto_ai_chat_other
      paths_distinct Let_def split: option.splits)

lemma upto_dev_log_ticks:
  assumes "fst (upto_mkdir w) = None" and "fst (upto_ai_chat w) = None"
  shows "ticks (snd (upto_dev_log w)) = (if tree_of w dev_log = None then Suc (ticks w) else ticks w)"
  using assms
  by (simp add: upto_dev_log_def create_dev_log_eq upto_ai_chat_logs upto_ai_chat_other
      paths_distinct Let_def split: option.splits)

lemma upto_dev_log_tree:
  assumes "fst (upto_mkdir w) = None" and "fst (upto_ai_chat w) = None"
  shows "tree_of (snd (upto_dev_log w)) =
     (if tree_of w dev_log = None
      then (tree_of (snd (upto_ai_chat w)))
             (dev_log := remains (refused w dev_log) (dev_log_text (strftime (clock w (ticks w)))))
      else tree_of (snd (upto_ai_chat w)))"
  using assms
  by (simp add: upto_dev_log_def create_dev_log_eq upto_ai_chat_logs upto_ai_chat_other
      paths_distinct Let_def split: option.splits)

lemma upto_dev_log_events:
  assumes "fst (upto_mkdir w) = None" and "fst (upto_ai_chat w) = None"
  shows "events (snd (upto_dev_log w)) =
     events (snd (upto_ai_chat w)) @
     ExistsCall dev_log (tree_of w dev_log \<noteq> None) #
     (if tree_of w dev_log \<noteq> None then [Printed (page @ '' logs/dev_log.md already exists'')]
      else NowCall (clock w (ticks w)) #
           WriteTextCall dev_log (dev_log_text (strftime (clock w (ticks w)))) (fst (upto_dev_log w)) #
           (if fst (upto_dev_log w) = None then [Printed (check_mark @ '' Created logs/dev_log.md'')]
            else []))"
  using assms
  by (simp add: upto_dev_log_def create_dev_log_eq upto_ai_chat_logs upto_ai_chat_other
      paths_distinct Let_def split: option.splits)

lemma upto_dev_log_logs:
  assumes "fst (upto_mkdir w) = None" and "fst (upto_ai_chat w) = None"
  shows "tree_of (snd (upto_dev_log w)) logs_dir = Some Dir"
  using assms by (simp add: upto_dev_log_tree upto_ai_chat_logs paths_distinct)

lemma upto_dev_log_other:
  assumes "fst (upto_mkdir w) = None" and "fst (upto_ai_chat w) = None"
    and "q \<noteq> logs_dir" and "q \<noteq> ai_chat" and "q \<noteq> dev_log"
  shows "tree_of (snd (upto_dev_log w)) q = tree_of w q"
  using assms by (simp add: upto_dev_log_tree upto_ai_chat_other)

subsection \<open>After the block of \<^verbatim>\<open>archived_logs.md\<close>\<close>

lemma upto_archived_logs_env [simp]:
  "refused (snd (upto_archived_logs w)) = refused w"
  "clock (snd (upto_archived_logs w)) = clock w"
  by (simp_all add: upto_archived_logs_def create_archived_logs_def exists_def write_text_def
      now_def Let_def split: prod.splits option.splits)

lemma upto_archived_logs_fst:
  assumes "fst (upto_mkdir w) = None" and "fst (upto_ai_chat w) = None"
    and "fst (upto_dev_log w) = None"
  shows "fst (upto_archived_logs w) =
     (if tree_of w archived_logs = None then raised (refused w archived_logs) else None)"
  using assms
  by (simp add: upto_archived_logs_def create_archived_logs_eq upto_dev_log_logs
      upto_dev_log_other paths_distinct Let_def split: option.splits)

lemma upto_archived_logs_ticks:
  assumes "fst (upto_mkdir w) = None" and "fst (upto_ai_chat w) = None"
    and "fst (upto_dev_log w) = None"
  shows "ticks (snd (upto_archived_logs w)) =
     (if tree_of w archived_logs = None then Suc (ticks (snd (upto_dev_log w)))
      else ticks (snd (upto_dev_log w)))"
  using assms
  by (simp add: upto_archived_logs_def create_archived_logs_eq upto_dev_log_logs
      upto_dev_log_other paths_distinct Let_def split: option.splits)

lemma upto_archived_logs_tree:
  assumes "fst (upto_mkdir w) = None" and "fst (upto_ai_chat w) = None"
    and "fst (upto_dev_log w) = None"
  shows "tree_of (snd (upto_archived_logs w)) =
     (if tree_of w archived_logs = None
      then (tree_of (snd (upto_dev_log w)))
             (archived_logs :=
                remains (refused w archived_logs)
                  (archived_logs_text (strftime (clock w (ticks (snd (upto_dev_log w)))))))
      else tree_of (snd (upto_dev_log w)))"
  using assms
  by (simp add: upto_archived_logs_def create_archived_logs_eq upto_dev_log_logs
      upto_dev_log_other paths_distinct Let_def split: option.splits)

lemma upto_archived_logs_events:
  assumes "fst (upto_mkdir w) = None" and "fst (upto_ai_chat w) = None"
    and "fst (upto_dev_log w) = None"
  shows "events (snd (upto_archived_logs w)) =
     events (snd (upto_dev_log w)) @
     ExistsCall archived_logs (tree_of w archived_logs \<noteq> None) #
     (if tree_of w archived_logs \<noteq> None
      then [Printed (page @ '' logs/archived_logs.md already exists'')]
      else NowCall (clock w (ticks (snd (upto_dev_log w)))) #
           WriteTextCall archived_logs
             (archived_logs_text (strftime (clock w (ticks (snd (upto_dev_log w))))))
             (fst (upto_archived_logs w)) #
           (if fst (upto_archived_logs w) = None
            then [Printed (check_mark @ '' Created logs/archived_logs.md'')]
            else []))"
  using assms
  by (simp add: upto_archived_logs_def create_archived_logs_eq upto_dev_log_logs
      upto_dev_log_other paths_distinct Let_def split: option.splits)


subsection \<open>The whole run\<close>

lemma events_grow:
  "length (events w) \<le> length (events (snd (init_collaboration w)))"
  "take (length (events w)) (events (snd (init_collaboration w))) = events w"
  by (simp_all add: init_collaboration_stages upto_mkdir_events upto_ai_chat_events
      upto_dev_log_events upto_archived_logs_events)

lemma run_events_eq:
  "run_events w =
     Printed (rocket @ '' Initializing AI Collaboration System...'') #
     MkdirCall logs_dir (fst (upto_mkdir w)) #
     (if fst (upto_mkdir w) \<noteq> None then []
      else
        Printed (folder @ '' Created logs/ directory'') #
        ExistsCall ai_chat (tree_of w ai_chat \<noteq> None) #
        (if tree_of w ai_chat \<noteq> None then [Printed (page @ '' logs/ai_chat.md already exists'')]
         else WriteTextCall ai_chat ai_chat_text (fst (upto_ai_chat w)) #
              (if fst (upto_ai_chat w) = None
               then [Printed (check_mark @ '' Created logs/ai_chat.md'')] else [])) @
        (if fst (upto_ai_chat w) \<noteq> None then []
         else
           ExistsCall dev_log (tree_of w dev_log \<noteq> None) #
           (if tree_of w dev_log \<noteq> None then [Printed (page @ '' logs/dev_log.md already exists'')]
            else NowCall (clock w (ticks w)) #
                 WriteTextCall dev_log (dev_log_text (strftime (clock w (ticks w))))
                   (fst (upto_dev_log w)) #
                 (if fst (upto_dev_log w) = None
                  then [Printed (check_mark @ '' Created logs/dev_log.md'')] else [])) @
           (if fst (upto_dev_log w) \<noteq> None then []
            else
              ExistsCall archived_logs (tree_of w archived_logs \<noteq> None) #
              (if tree_of w archived_logs \<noteq> None
               then [Printed (page @ '' logs/archived_logs.md already exists'')]
               else NowCall (clock w (ticks (snd (upto_dev_log w)))) #
                    WriteTextCall archived_logs
                      (archived_logs_text (strftime (clock w (ticks (snd (upto_dev_log w))))))
                      (fst (upto_archived_logs w)) #
                    (if fst (upto_archived_logs w) = None
                     then [Printed (check_mark @ '' Created logs/archived_logs.md'')] else [])) @
              (if fst (upto_archived_logs w) \<noteq> None then []
               else map Printed setup_instructions))))"
  by (simp add: run_events_def init_collaboration_stages upto_mkdir_events upto_ai_chat_events
      upto_dev_log_events upto_archived_logs_events)


lemma upto_mkdir_keeps:
  "tree_of w p = Some n \<Longrightarrow> tree_of (snd (upto_mkdir w)) p = Some n"
  by (auto simp add: upto_mkdir_tree upto_mkdir_fst split: option.splits node.splits)

lemma upto_ai_chat_keeps:
  "fst (upto_mkdir w) = None \<Longrightarrow> tree_of w p = Some n \<Longrightarrow>
   tree_of (snd (upto_ai_chat w)) p = Some n"
  by (auto simp add: upto_ai_chat_tree upto_mkdir_keeps)

lemma upto_dev_log_keeps:
  "fst (upto_mkdir w) = None \<Longrightarrow> fst (upto_ai_chat w) = None \<Longrightarrow>
   tree_of w p = Some n \<Longrightarrow> tree_of (snd (upto_dev_log w)) p = Some n"
  by (auto simp add: upto_dev_log_tree upto_ai_chat_keeps)

lemma upto_archived_logs_keeps:
  "fst (upto_mkdir w) = None \<Longrightarrow> fst (upto_ai_chat w) = None \<Longrightarrow>
   fst (upto_dev_log w) = None \<Longrightarrow> tree_of w p = Some n \<Longrightarrow>
   tree_of (snd (upto_archived_logs w)) p = Some n"
  by (auto simp add: upto_archived_logs_tree upto_dev_log_keeps)

lemma init_collaboration_keeps:
  "tree_of w p = Some n \<Longrightarrow> tree_of (snd (init_collaboration w)) p = Some n"
  by (simp add: init_collaboration_stages upto_mkdir_keeps upto_ai_chat_keeps upto_dev_log_keeps
      upto_archived_logs_keeps)

lemma written_was_absent:
  "WriteTextCall p data res \<in> set (run_events w) \<Longrightarrow> tree_of w p = None"
  by (auto simp add: run_events_eq split: if_splits)

lemma init_collaboration_refused [simp]:
  "refused (snd (init_collaboration w)) = refused w"
  by (simp add: init_collaboration_stages)

lemma init_collaboration_clock [simp]:
  "clock (snd (init_collaboration w)) = clock w"
  by (simp add: init_collaboration_stages)

text \<open>
  The tree a run leaves, path by path. A file is left, whole or cut short, as soon as its
  block is reached and the path is absent, also when the write raises.
\<close>

lemma final_tree:
  "tree_of (snd (init_collaboration w)) q =
     (if q = logs_dir then (if fst (upto_mkdir w) = None then Some Dir else tree_of w logs_dir)
      else if q = ai_chat \<and> tree_of w ai_chat = None \<and> fst (upto_mkdir w) = None
      then remains (refused w ai_chat) ai_chat_text
      else if q = dev_log \<and> tree_of w dev_log = None \<and> fst (upto_mkdir w) = None \<and>
              fst (upto_ai_chat w) = None
      then remains (refused w dev_log) (dev_log_text (strftime (clock w (ticks w))))
      else if q = archived_logs \<and> tree_of w archived_logs = None \<and> fst (upto_mkdir w) = None \<and>
              fst (upto_ai_chat w) = None \<and> fst (upto_dev_log w) = None
      then remains (refused w archived_logs)
             (archived_logs_text (strftime (clock w (ticks (snd (upto_dev_log w))))))
      else tree_of w q)"
proof (cases "fst (upto_mkdir w)")
  case (Some e)
  then show ?thesis by (simp add: init_collaboration_stages upto_mkdir_tree)
next
  case None
  note r1 = this
  show ?thesis
  proof (cases "fst (upto_ai_chat w)")
    case (Some e)
    then show ?thesis
      by (simp add: init_collaboration_stages r1 upto_ai_chat_tree upto_mkdir_tree paths_distinct)
  next
    case None
    note r2 = this
    show ?thesis
    proof (cases "fst (upto_dev_log w)")
      case (Some e)
      then show ?thesis
        by (simp add: init_collaboration_stages r1 r2 upto_dev_log_tree upto_ai_chat_tree
            upto_mkdir_tree paths_distinct)
    next
      case None
      note r3 = this
      show ?thesis
        by (simp add: init_collaboration_stages r1 r2 r3 upto_archived_logs_tree
            upto_dev_log_tree upto_ai_chat_tree upto_mkdir_tree paths_distinct)
    qed
  qed
qed

lemma mkdir_ok_iff:
  "fst (upto_mkdir w) = None \<longleftrightarrow>
     tree_of w logs_dir = Some Dir \<or>
     (tree_of w logs_dir = None \<and> denied (refused w) logs_dir = None)"
  by (auto simp add: upto_mkdir_fst split: option.splits node.splits)

lemma left_logs:
  "tree_of (snd (init_collaboration w)) logs_dir = Some Dir \<longleftrightarrow> fst (upto_mkdir w) = None"
  by (auto simp add: final_tree mkdir_ok_iff)

lemma init_ok:
  "fst (init_collaboration w) = None \<longleftrightarrow>
     fst (upto_mkdir w) = None \<and> fst (upto_ai_chat w) = None \<and> fst (upto_dev_log w) = None \<and>
     fst (upto_archived_logs w) = None"
  by (auto simp add: init_collaboration_stages)

text \<open>The tree after a run that raised nothing.\<close>

lemma final_tree_ok:
  assumes "fst (init_collaboration w) = None"
  shows "tree_of (snd (init_collaboration w)) q =
     (if q = logs_dir then Some Dir
      else if q = ai_chat \<and> tree_of w ai_chat = None then Some (File ai_chat_text)
      else if q = dev_log \<and> tree_of w dev_log = None
      then Some (File (dev_log_text (strftime (clock w (ticks w)))))
      else if q = archived_logs \<and> tree_of w archived_logs = None
      then Some (File (archived_logs_text (strftime (clock w (ticks (snd (upto_dev_log w)))))))
      else tree_of w q)"
proof -
  from assms have r: "fst (upto_mkdir w) = None" "fst (upto_ai_chat w) = None"
    "fst (upto_dev_log w) = None" "fst (upto_archived_logs w) = None"
    by (simp_all add: init_ok)
  have "refused w ai_chat = None" if "tree_of w ai_chat = None"
    using that r(2) by (simp add: upto_ai_chat_fst [OF r(1)])
  moreover have "refused w dev_log = None" if "tree_of w dev_log = None"
    using that r(3) by (simp add: upto_dev_log_fst [OF r(1,2)])
  moreover have "refused w archived_logs = None" if "tree_of w archived_logs = None"
    using that r(4) by (simp add: upto_archived_logs_fst [OF r(1,2,3)])
  ultimately show ?thesis
    by (simp add: final_tree r)
qed

text \<open>In a world where the four entries are there, a run changes nothing in the tree.\<close>

lemma all_there:
  assumes "tree_of v logs_dir = Some Dir" and "tree_of v ai_chat \<noteq> None"
    and "tree_of v dev_log \<noteq> None" and "tree_of v archived_logs \<noteq> None"
  shows "fst (init_collaboration v) = None" and "tree_of (snd (init_collaboration v)) = tree_of v"
proof -
  have r1: "fst (upto_mkdir v) = None"
    using assms(1) by (simp add: upto_mkdir_fst)
  have r2: "fst (upto_ai_chat v) = None"
    using assms(2) by (auto simp add: upto_ai_chat_fst [OF r1])
  have r3: "fst (upto_dev_log v) = None"
    using assms(3) by (auto simp add: upto_dev_log_fst [OF r1 r2])
  have r4: "fst (upto_archived_logs v) = None"
    using assms(4) by (auto simp add: upto_archived_logs_fst [OF r1 r2 r3])
  show "fst (init_collaboration v) = None"
    by (simp add: init_ok r1 r2 r3 r4)
  show "tree_of (snd (init_collaboration v)) = tree_of v"
    using assms by (intro ext) (auto simp add: final_tree r1 r2 r3 paths_distinct)
qed

text \<open>After a run that raised nothing the four entries are there, so a second run changes nothing.\<close>

lemma second_run_changes_nothing:
  assumes "fst (init_collaboration w) = None"
  shows "tree_of (snd (init_collaboration (snd (init_collaboration w)))) =
         tree_of (snd (init_collaboration w))"
  by (rule all_there) (simp_all add: final_tree_ok [OF assms] paths_distinct)

lemma upto_mkdir_is_mkdir:
  "fst (upto_mkdir w) = fst (mkdir logs_dir False True w)"
  "tree_of (snd (upto_mkdir w)) = tree_of (snd (mkdir logs_dir False True w))"
  by (simp_all add: upto_mkdir_def mkdir_logs split: option.splits node.splits)

lemma file_calls_run:
  "\<exists>rest. file_calls (run_events w) = MkdirCall logs_dir (fst (upto_mkdir w)) # rest"
  by (simp add: run_events_eq file_calls_def)

lemma mkdir_parents_same: "mkdir logs_dir True True w = mkdir logs_dir False True w"
  by (simp add: mkdir_def path_mkdir_logs_parents)

subsection \<open>The runs from the worlds above\<close>

lemma used_world_facts:
  "tree_of used_world logs_dir = Some Dir"
  "tree_of used_world ai_chat = Some (File ''CURSOR_TURN'')"
  "tree_of used_world dev_log = None"
  "tree_of used_world archived_logs = None"
  "refused used_world = Map.empty"
  "clock used_world = steady_clock noon"
  "ticks used_world = 0"
  by (simp_all add: used_world_def empty_world_def paths_distinct)

lemma used_world_stages:
  "fst (upto_mkdir used_world) = None"
  "fst (upto_ai_chat used_world) = None"
  "fst (upto_dev_log used_world) = None"
  "fst (upto_archived_logs used_world) = None"
proof -
  show r1: "fst (upto_mkdir used_world) = None"
    by (simp add: upto_mkdir_fst used_world_facts)
  show r2: "fst (upto_ai_chat used_world) = None"
    by (simp add: upto_ai_chat_fst [OF r1] used_world_facts)
  show r3: "fst (upto_dev_log used_world) = None"
    by (simp add: upto_dev_log_fst [OF r1 r2] used_world_facts)
  show "fst (upto_archived_logs used_world) = None"
    by (simp add: upto_archived_logs_fst [OF r1 r2 r3] used_world_facts)
qed

lemma strftime_noon: "strftime (steady_clock noon 0) = ''2024-03-09 12:00:00''"
  by (simp add: strftime_def zero_pad_def steady_clock_def noon_def digit_char_def decimal.simps)

lemma strftime_noon1: "strftime (steady_clock noon (Suc 0)) = ''2024-03-09 12:00:01''"
  by (simp add: strftime_def zero_pad_def steady_clock_def noon_def digit_char_def decimal.simps)

lemma empty_world_facts:
  "tree_of empty_world = Map.empty"
  "refused empty_world = Map.empty"
  "clock empty_world = steady_clock noon"
  "ticks empty_world = 0"
  "events empty_world = []"
  by (simp_all add: empty_world_def)

lemma logs_world_facts:
  "tree_of logs_world logs_dir = Some Dir"
  "tree_of logs_world ai_chat = None"
  "tree_of logs_world dev_log = None"
  "tree_of logs_world archived_logs = None"
  "refused logs_world = Map.empty"
  "clock logs_world = steady_clock noon"
  "ticks logs_world = 0"
  "events logs_world = []"
  by (simp_all add: logs_world_def empty_world_def paths_distinct)

lemma empty_world_stages:
  "fst (upto_mkdir empty_world) = None"
  "fst (upto_ai_chat empty_world) = None"
  "fst (upto_dev_log empty_world) = None"
  "fst (upto_archived_logs empty_world) = None"
proof -
  show r1: "fst (upto_mkdir empty_world) = None"
    by (simp add: upto_mkdir_fst empty_world_facts)
  show r2: "fst (upto_ai_chat empty_world) = None"
    by (simp add: upto_ai_chat_fst [OF r1] empty_world_facts)
  show r3: "fst (upto_dev_log empty_world) = None"
    by (simp add: upto_dev_log_fst [OF r1 r2] empty_world_facts)
  show "fst (upto_archived_logs empty_world) = None"
    by (simp add: upto_archived_logs_fst [OF r1 r2 r3] empty_world_facts)
qed

lemma logs_world_stages:
  "fst (upto_mkdir logs_world) = None"
  "fst (upto_ai_chat logs_world) = None"
  "fst (upto_dev_log logs_world) = None"
  "fst (upto_archived_logs logs_world) = None"
proof -
  show r1: "fst (upto_mkdir logs_world) = None"
    by (simp add: upto_mkdir_fst logs_world_facts)
  show r2: "fst (upto_ai_chat logs_world) = None"
    by (simp add: upto_ai_chat_fst [OF r1] logs_world_facts)
  show r3: "fst (upto_dev_log logs_world) = None"
    by (simp add: upto_dev_log_fst [OF r1 r2] logs_world_facts)
  show "fst (upto_archived_logs logs_world) = None"
    by (simp add: upto_archived_logs_fst [OF r1 r2 r3] logs_world_facts)
qed




lemma written_append: "written (xs @ ys) = written xs @ written ys"
  by (induction xs rule: written.induct) simp_all

lemma written_prints: "written (map Printed ss) = []"
  by (induction ss) simp_all

lemma written_run:
  assumes "fst (init_collaboration w) = None"
  shows "written (run_events w) =
           filter (\<lambda>p. tree_of w p = None) [ai_chat, dev_log, archived_logs]"
  using assms
  by (simp add: init_ok run_events_eq written_append written_prints)

lemma printed_append: "printed (xs @ ys) = printed xs @ printed ys"
  by (induction xs rule: printed.induct) simp_all

lemma printed_prints: "printed (map Printed ss) = ss"
  by (induction ss) simp_all

lemma console_ok:
  assumes "fst (init_collaboration w) = None"
  shows "console w =
     [rocket @ '' Initializing AI Collaboration System...'',
      folder @ '' Created logs/ directory'',
      (if tree_of w ai_chat \<noteq> None then page @ '' logs/ai_chat.md already exists''
       else check_mark @ '' Created logs/ai_chat.md''),
      (if tree_of w dev_log \<noteq> None then page @ '' logs/dev_log.md already exists''
       else check_mark @ '' Created logs/dev_log.md''),
      (if tree_of w archived_logs \<noteq> None then page @ '' logs/archived_logs.md already exists''
       else check_mark @ '' Created logs/archived_logs.md'')] @
     setup_instructions"
  using assms
  by (simp add: init_ok console_def run_events_eq printed_append printed_prints)

lemma init_ok_empty: "fst (init_collaboration empty_world) = None"
  by (simp add: init_ok empty_world_stages)

lemma init_ok_logs: "fst (init_collaboration logs_world) = None"
  by (simp add: init_ok logs_world_stages)

lemma init_ok_used: "fst (init_collaboration used_world) = None"
  by (simp add: init_ok used_world_stages)

subsection \<open>The writes of a run\<close>

lemma ai_chat_write:
  assumes "WriteTextCall ai_chat data res \<in> set (run_events w)"
  shows "fst (upto_mkdir w) = None" and "tree_of w ai_chat = None"
    and "res = fst (upto_ai_chat w)" and "data = ai_chat_text"
  using assms by (auto simp add: run_events_eq paths_distinct split: if_splits)

lemma dev_log_write:
  assumes "WriteTextCall dev_log data res \<in> set (run_events w)"
  shows "fst (upto_mkdir w) = None" and "fst (upto_ai_chat w) = None"
    and "tree_of w dev_log = None" and "res = fst (upto_dev_log w)"
    and "data = dev_log_text (strftime (clock w (ticks w)))"
  using assms by (auto simp add: run_events_eq paths_distinct split: if_splits)

lemma archived_logs_write:
  assumes "WriteTextCall archived_logs data res \<in> set (run_events w)"
  shows "fst (upto_mkdir w) = None" and "fst (upto_ai_chat w) = None"
    and "fst (upto_dev_log w) = None"
    and "tree_of w archived_logs = None" and "res = fst (upto_archived_logs w)"
    and "data = archived_logs_text (strftime (clock w (ticks (snd (upto_dev_log w)))))"
  using assms by (auto simp add: run_events_eq paths_distinct split: if_splits)


lemma dev_log_stamped:
  assumes "WriteTextCall dev_log data None \<in> set (run_events w)"
  shows "data = dev_log_text (strftime (clock w (ticks w)))"
    and "sublist [NowCall (clock w (ticks w)), WriteTextCall dev_log data None] (run_events w)"
    and "tree_of (snd (init_collaboration w)) dev_log = Some (File data)"
proof -
  note f = dev_log_write [OF assms]
  show d: "data = dev_log_text (strftime (clock w (ticks w)))" by (rule f)
  have r3: "fst (upto_dev_log w) = None" using f(4) by simp
  then have allowed: "refused w dev_log = None"
    using f(3) by (simp add: upto_dev_log_fst [OF f(1,2)])
  show "sublist [NowCall (clock w (ticks w)), WriteTextCall dev_log data None] (run_events w)"
    by (simp add: run_events_eq f(1,2,3) r3 d sublist_Cons_right)
  show "tree_of (snd (init_collaboration w)) dev_log = Some (File data)"
    by (simp add: final_tree f(1,2,3) allowed d paths_distinct)
qed

lemma archived_logs_stamped:
  assumes "WriteTextCall archived_logs data None \<in> set (run_events w)"
  defines "t \<equiv> clock w (if tree_of w dev_log = None then Suc (ticks w) else ticks w)"
  shows "data = archived_logs_text (strftime t)"
    and "sublist [NowCall t, WriteTextCall archived_logs data None] (run_events w)"
    and "tree_of (snd (init_collaboration w)) archived_logs = Some (File data)"
proof -
  note f = archived_logs_write [OF assms(1)]
  have r4: "fst (upto_archived_logs w) = None" using f(5) by simp
  then have allowed: "refused w archived_logs = None"
    using f(4) by (simp add: upto_archived_logs_fst [OF f(1,2,3)])
  have t: "clock w (ticks (snd (upto_dev_log w))) = t"
    by (simp add: t_def upto_dev_log_ticks [OF f(1,2)])
  show d: "data = archived_logs_text (strftime t)" using f(6) by (simp add: t)
  show "sublist [NowCall t, WriteTextCall archived_logs data None] (run_events w)"
    by (simp add: run_events_eq f(1,2,3,4) r4 d t sublist_Cons_right)
  show "tree_of (snd (init_collaboration w)) archived_logs = Some (File data)"
    by (simp add: final_tree f(1,2,3,4) allowed d t paths_distinct)
qed

lemma read_timestamp_strftime:
  assumes "valid_datetime t"
  shows "read_timestamp (strftime t) = t\<lparr>microsecond := 0\<rparr>"
  by (simp add: read_timestamp_def strftime_valid [OF assms])

lemma stamp_in_dev_log_text:
  "length s = 19 \<Longrightarrow> take 19 (drop 28 (dev_log_text s)) = s"
  by (simp add: dev_log_text_def unlines_def newline_def)

lemma stamp_in_archived_logs_text:
  "length s = 19 \<Longrightarrow> take 19 (drop 26 (archived_logs_text s)) = s"
  by (simp add: archived_logs_text_def unlines_def newline_def)

lemma length_strftime: "valid_datetime t \<Longrightarrow> length (strftime t) = 19"
  using strftime_valid(1) [of t] by (simp add: timestamp_shape_def)

lemma dev_log_text_inj: "dev_log_text s = dev_log_text s' \<longleftrightarrow> s = s'"
  by (simp add: dev_log_text_def unlines_def newline_def)

lemma archived_logs_text_inj: "archived_logs_text s = archived_logs_text s' \<longleftrightarrow> s = s'"
  by (simp add: archived_logs_text_def unlines_def newline_def)

lemma strftime_inj:
  assumes "valid_datetime t" and "valid_datetime t'" and "strftime t = strftime t'"
  shows "t\<lparr>microsecond := 0\<rparr> = t'\<lparr>microsecond := 0\<rparr>"
  using read_timestamp_strftime [OF assms(1)] read_timestamp_strftime [OF assms(2)] assms(3)
  by simp

lemma archived_logs_tick:
  assumes "WriteTextCall archived_logs data res \<in> set (run_events w)"
  shows "data = archived_logs_text
           (strftime (clock w (if tree_of w dev_log = None then Suc (ticks w) else ticks w)))"
  using archived_logs_write [OF assms]
  by (simp add: upto_dev_log_ticks)

subsection \<open>The five ways a run ends\<close>

lemma run_cases [case_names mkdir_raised ai_chat_raised dev_log_raised archived_logs_raised returned]:
  obtains e where "fst (upto_mkdir w) = Some e"
  | e where "fst (upto_mkdir w) = None" and "fst (upto_ai_chat w) = Some e"
      and "tree_of w ai_chat = None"
  | e where "fst (upto_mkdir w) = None" and "fst (upto_ai_chat w) = None"
      and "fst (upto_dev_log w) = Some e" and "tree_of w dev_log = None"
  | e where "fst (upto_mkdir w) = None" and "fst (upto_ai_chat w) = None"
      and "fst (upto_dev_log w) = None" and "fst (upto_archived_logs w) = Some e"
      and "tree_of w archived_logs = None"
  | "fst (upto_mkdir w) = None" and "fst (upto_ai_chat w) = None"
      and "fst (upto_dev_log w) = None" and "fst (upto_archived_logs w) = None"
proof (cases "fst (upto_mkdir w)")
  case (Some e)
  then show ?thesis by (rule that(1))
next
  case None
  note r1 = this
  show ?thesis
  proof (cases "fst (upto_ai_chat w)")
    case (Some e)
    then have "tree_of w ai_chat = None"
      by (simp add: upto_ai_chat_fst [OF r1] split: if_splits)
    with r1 Some show ?thesis by (rule that(2))
  next
    case None
    note r2 = this
    show ?thesis
    proof (cases "fst (upto_dev_log w)")
      case (Some e)
      then have "tree_of w dev_log = None"
        by (simp add: upto_dev_log_fst [OF r1 r2] split: if_splits)
      with r1 r2 Some show ?thesis by (rule that(3))
    next
      case None
      note r3 = this
      show ?thesis
      proof (cases "fst (upto_archived_logs w)")
        case (Some e)
        then have "tree_of w archived_logs = None"
          by (simp add: upto_archived_logs_fst [OF r1 r2 r3] split: if_splits)
        with r1 r2 r3 Some show ?thesis by (rule that(4))
      next
        case None
        with r1 r2 r3 show ?thesis by (rule that(5))
      qed
    qed
  qed
qed

subsection \<open>The calls that raise\<close>

lemma failed_prints: "filter (\<lambda>e. failed e \<noteq> None) (map Printed ss) = []"
  by (induction ss) simp_all

lemma failed_run:
  "filter (\<lambda>e. failed e \<noteq> None) (run_events w) =
     (case fst (init_collaboration w) of None \<Rightarrow> [] | Some err \<Rightarrow> [last (run_events w)])"
  "fst (init_collaboration w) \<noteq> None \<Longrightarrow> failed (last (run_events w)) = fst (init_collaboration w)"
proof -
  show "filter (\<lambda>e. failed e \<noteq> None) (run_events w) =
     (case fst (init_collaboration w) of None \<Rightarrow> [] | Some err \<Rightarrow> [last (run_events w)])"
    by (cases w rule: run_cases)
      (simp_all add: init_collaboration_stages run_events_eq failed_prints)
  show "failed (last (run_events w)) = fst (init_collaboration w)"
    if "fst (init_collaboration w) \<noteq> None"
    using that
    by (cases w rule: run_cases)
      (simp_all add: init_collaboration_stages run_events_eq)
qed

lemma main_status: "fst (main w) = (if fst (init_collaboration w) = None then 0 else 1)"
  "snd (main w) = snd (init_collaboration w)"
  by (simp_all add: main_def split: prod.splits option.splits)


lemma guarded_world_facts:
  "tree_of guarded_world logs_dir = Some Dir"
  "tree_of guarded_world ai_chat = None"
  "tree_of guarded_world dev_log = None"
  "tree_of guarded_world archived_logs = None"
  "refused guarded_world logs_dir = None"
  "refused guarded_world ai_chat = None"
  "refused guarded_world dev_log = Some (Denied PermissionError)"
  "refused guarded_world archived_logs = None"
  "clock guarded_world = steady_clock noon"
  "ticks guarded_world = 0"
  "events guarded_world = []"
  by (simp_all add: guarded_world_def logs_world_def empty_world_def paths_distinct)

lemma guarded_world_stages:
  "fst (upto_mkdir guarded_world) = None"
  "fst (upto_ai_chat guarded_world) = None"
  "fst (upto_dev_log guarded_world) = Some PermissionError"
proof -
  show r1: "fst (upto_mkdir guarded_world) = None"
    by (simp add: upto_mkdir_fst guarded_world_facts)
  show r2: "fst (upto_ai_chat guarded_world) = None"
    by (simp add: upto_ai_chat_fst [OF r1] guarded_world_facts)
  show "fst (upto_dev_log guarded_world) = Some PermissionError"
    by (simp add: upto_dev_log_fst [OF r1 r2] guarded_world_facts raised_def)
qed

lemma guarded_world_run:
  "fst (init_collaboration guarded_world) = Some PermissionError"
  "run_events guarded_world =
     [Printed (rocket @ '' Initializing AI Collaboration System...''),
      MkdirCall logs_dir None,
      Printed (folder @ '' Created logs/ directory''),
      ExistsCall ai_chat False,
      WriteTextCall ai_chat ai_chat_text None,
      Printed (check_mark @ '' Created logs/ai_chat.md''),
      ExistsCall dev_log False,
      NowCall (steady_clock noon 0),
      WriteTextCall dev_log (dev_log_text ''2024-03-09 12:00:00'') (Some PermissionError)]"
  by (simp_all add: init_collaboration_stages run_events_eq guarded_world_stages
      guarded_world_facts strftime_noon)

lemma blocked_world_facts:
  "tree_of blocked_world logs_dir = Some (File ''not a directory'')"
  "tree_of blocked_world ai_chat = None"
  "tree_of blocked_world dev_log = None"
  "tree_of blocked_world archived_logs = None"
  "refused blocked_world = Map.empty"
  "clock blocked_world = steady_clock noon"
  "ticks blocked_world = 0"
  "events blocked_world = []"
  by (simp_all add: blocked_world_def empty_world_def paths_distinct)

lemma blocked_world_run:
  "fst (upto_mkdir blocked_world) = Some FileExistsError"
  "fst (init_collaboration blocked_world) = Some FileExistsError"
  "run_events blocked_world =
     [Printed (rocket @ '' Initializing AI Collaboration System...''),
      MkdirCall logs_dir (Some FileExistsError)]"
proof -
  show r1: "fst (upto_mkdir blocked_world) = Some FileExistsError"
    by (simp add: upto_mkdir_fst blocked_world_facts)
  show "fst (init_collaboration blocked_world) = Some FileExistsError"
    by (simp add: init_collaboration_stages r1)
  show "run_events blocked_world =
     [Printed (rocket @ '' Initializing AI Collaboration System...''),
      MkdirCall logs_dir (Some FileExistsError)]"
    by (simp add: run_events_eq r1)
qed

subsection \<open>The order of the calls\<close>

lemma file_calls_Nil: "file_calls [] = []"
  by (simp add: file_calls_def)

lemma file_calls_prints: "file_calls (map Printed ss) = []"
  by (induction ss) (simp_all add: file_calls_def)

lemma file_calls_append: "file_calls (xs @ ys) = file_calls xs @ file_calls ys"
  by (simp add: file_calls_def)

lemma file_calls_Cons:
  "file_calls (e # es) = (if is_print e \<or> is_clock e then file_calls es else e # file_calls es)"
  by (simp add: file_calls_def)

lemma order_of_paths:
  "prefix (remdups_adj (map touched (file_calls (run_events w))))
     [logs_dir, ai_chat, dev_log, archived_logs]"
  "fst (init_collaboration w) = None \<Longrightarrow>
     remdups_adj (map touched (file_calls (run_events w))) =
       [logs_dir, ai_chat, dev_log, archived_logs]"
proof -
  show "prefix (remdups_adj (map touched (file_calls (run_events w))))
     [logs_dir, ai_chat, dev_log, archived_logs]"
    by (cases w rule: run_cases)
      (simp_all add: run_events_eq file_calls_Cons file_calls_Nil file_calls_append file_calls_prints
        paths_distinct)
  show "remdups_adj (map touched (file_calls (run_events w))) =
       [logs_dir, ai_chat, dev_log, archived_logs]"
    if "fst (init_collaboration w) = None"
    using that
    by (simp add: init_ok run_events_eq file_calls_Cons file_calls_Nil file_calls_append file_calls_prints
        paths_distinct)
qed

lemma check_before_write:
  assumes "WriteTextCall p data res \<in> set (run_events w)"
  shows "sublist [ExistsCall p False, WriteTextCall p data res] (file_calls (run_events w))"
  using assms
  by (cases w rule: run_cases)
    (auto simp add: run_events_eq file_calls_Cons file_calls_Nil file_calls_append file_calls_prints
      sublist_Cons_right split: if_splits)

lemma instructions_last:
  assumes "fst (init_collaboration w) = None"
  shows "\<exists>pre. run_events w = pre @ map Printed setup_instructions \<and>
           file_calls pre = file_calls (run_events w)"
proof -
  from assms have r: "fst (upto_mkdir w) = None" "fst (upto_ai_chat w) = None"
    "fst (upto_dev_log w) = None" "fst (upto_archived_logs w) = None"
    by (simp_all add: init_ok)
  have "run_events w =
          take (length (run_events w) - length setup_instructions) (run_events w) @
          map Printed setup_instructions"
    by (simp add: run_events_eq r)
  moreover from this have
    "file_calls (take (length (run_events w) - length setup_instructions) (run_events w)) =
       file_calls (run_events w)"
    by (metis file_calls_append file_calls_prints append_Nil2)
  ultimately show ?thesis by blast
qed


lemma rule_line_eq: "rule_line = ''============================================================''"
  by (simp add: rule_line_def eval_nat_numeral)

lemma status_lines_apart:
  "rocket @ '' Initializing AI Collaboration System...'' \<notin> set setup_instructions"
  "folder @ '' Created logs/ directory'' \<notin> set setup_instructions"
  "page @ '' logs/ai_chat.md already exists'' \<notin> set setup_instructions"
  "check_mark @ '' Created logs/ai_chat.md'' \<notin> set setup_instructions"
  "page @ '' logs/dev_log.md already exists'' \<notin> set setup_instructions"
  "check_mark @ '' Created logs/dev_log.md'' \<notin> set setup_instructions"
  "page @ '' logs/archived_logs.md already exists'' \<notin> set setup_instructions"
  "check_mark @ '' Created logs/archived_logs.md'' \<notin> set setup_instructions"
  by (simp_all add: setup_instructions_def rocket_def folder_def page_def check_mark_def
      clipboard_def sparkles_def newline_def rule_line_eq)

lemma no_instructions_after_error:
  assumes "fst (init_collaboration w) \<noteq> None"
  shows "set (console w) \<inter> set setup_instructions = {}"
  using assms
  by (cases w rule: run_cases)
    (simp_all add: init_ok console_def run_events_eq printed_append status_lines_apart)

subsection \<open>Two worlds with the same entries\<close>

lemma same_run:
  assumes logs: "tree_of w logs_dir = None \<longleftrightarrow> tree_of w' logs_dir = None"
      "tree_of w logs_dir = Some Dir \<longleftrightarrow> tree_of w' logs_dir = Some Dir"
    and files: "tree_of w ai_chat = None \<longleftrightarrow> tree_of w' ai_chat = None"
      "tree_of w dev_log = None \<longleftrightarrow> tree_of w' dev_log = None"
      "tree_of w archived_logs = None \<longleftrightarrow> tree_of w' archived_logs = None"
    and refusals: "refused w logs_dir = refused w' logs_dir" "refused w ai_chat = refused w' ai_chat"
      "refused w dev_log = refused w' dev_log" "refused w archived_logs = refused w' archived_logs"
    and time: "clock w = clock w'" "ticks w = ticks w'"
  shows "run_events w = run_events w'" and "fst (init_collaboration w) = fst (init_collaboration w')"
proof -
  have e1: "fst (upto_mkdir w) = fst (upto_mkdir w')"
    using logs refusals(1)
    by (cases "tree_of w logs_dir"; cases "tree_of w' logs_dir")
      (auto simp add: upto_mkdir_fst denied_def split: node.splits)
  have e2: "fst (upto_ai_chat w) = fst (upto_ai_chat w')" if "fst (upto_mkdir w) = None"
    using that e1 files(1) refusals(2) by (simp add: upto_ai_chat_fst)
  have e3: "fst (upto_dev_log w) = fst (upto_dev_log w')"
    if "fst (upto_mkdir w) = None" "fst (upto_ai_chat w) = None"
    using that e1 e2 files(2) refusals(3) by (simp add: upto_dev_log_fst)
  have t3: "ticks (snd (upto_dev_log w)) = ticks (snd (upto_dev_log w'))"
    if "fst (upto_mkdir w) = None" "fst (upto_ai_chat w) = None"
    using that e1 e2 files(2) time(2) by (simp add: upto_dev_log_ticks)
  have e4: "fst (upto_archived_logs w) = fst (upto_archived_logs w')"
    if "fst (upto_mkdir w) = None" "fst (upto_ai_chat w) = None" "fst (upto_dev_log w) = None"
    using that e1 e2 e3 files(3) refusals(4) by (simp add: upto_archived_logs_fst)
  note same = files [symmetric] time [symmetric]
  show "run_events w = run_events w'"
  proof (cases w rule: run_cases)
    case (mkdir_raised e)
    moreover from this have "fst (upto_mkdir w') = Some e" using e1 by simp
    ultimately show ?thesis by (simp add: run_events_eq)
  next
    case (ai_chat_raised e)
    moreover from this have "fst (upto_mkdir w') = None" "fst (upto_ai_chat w') = Some e"
      using e1 e2 by simp_all
    ultimately show ?thesis by (simp add: run_events_eq same)
  next
    case (dev_log_raised e)
    moreover from this have "fst (upto_mkdir w') = None" "fst (upto_ai_chat w') = None"
      "fst (upto_dev_log w') = Some e"
      using e1 e2 e3 by simp_all
    ultimately show ?thesis by (simp add: run_events_eq same)
  next
    case (archived_logs_raised e)
    moreover from this have "fst (upto_mkdir w') = None" "fst (upto_ai_chat w') = None"
      "fst (upto_dev_log w') = None" "fst (upto_archived_logs w') = Some e"
      "ticks (snd (upto_dev_log w')) = ticks (snd (upto_dev_log w))"
      using e1 e2 e3 e4 t3 by simp_all
    ultimately show ?thesis by (simp add: run_events_eq same)
  next
    case returned
    moreover from this have "fst (upto_mkdir w') = None" "fst (upto_ai_chat w') = None"
      "fst (upto_dev_log w') = None" "fst (upto_archived_logs w') = None"
      "ticks (snd (upto_dev_log w')) = ticks (snd (upto_dev_log w))"
      using e1 e2 e3 e4 t3 by simp_all
    ultimately show ?thesis by (simp add: run_events_eq same)
  qed
  show "fst (init_collaboration w) = fst (init_collaboration w')"
  proof (cases w rule: run_cases)
    case (mkdir_raised e)
    moreover from this have "fst (upto_mkdir w') = Some e" using e1 by simp
    ultimately show ?thesis by (simp add: init_collaboration_stages)
  next
    case (ai_chat_raised e)
    moreover from this have "fst (upto_mkdir w') = None" "fst (upto_ai_chat w') = Some e"
      using e1 e2 by simp_all
    ultimately show ?thesis by (simp add: init_collaboration_stages)
  next
    case (dev_log_raised e)
    moreover from this have "fst (upto_mkdir w') = None" "fst (upto_ai_chat w') = None"
      "fst (upto_dev_log w') = Some e"
      using e1 e2 e3 by simp_all
    ultimately show ?thesis by (simp add: init_collaboration_stages)
  next
    case (archived_logs_raised e)
    moreover from this have "fst (upto_mkdir w') = None" "fst (upto_ai_chat w') = None"
      "fst (upto_dev_log w') = None" "fst (upto_archived_logs w') = Some e"
      using e1 e2 e3 e4 by simp_all
    ultimately show ?thesis by (simp add: init_collaboration_stages)
  next
    case returned
    moreover from this have "fst (upto_mkdir w') = None" "fst (upto_ai_chat w') = None"
      "fst (upto_dev_log w') = None" "fst (upto_archived_logs w') = None"
      using e1 e2 e3 e4 by simp_all
    ultimately show ?thesis by (simp add: init_collaboration_stages)
  qed
qed


lemma reused_world_facts:
  "tree_of reused_world logs_dir = Some Dir"
  "tree_of reused_world ai_chat = Some (File ''COPILOT_TURN'')"
  "tree_of reused_world dev_log = None"
  "tree_of reused_world archived_logs = None"
  "refused reused_world = Map.empty"
  "clock reused_world = steady_clock noon"
  "ticks reused_world = 0"
  by (simp_all add: reused_world_def empty_world_def logs_dir_def ai_chat_def dev_log_def
      archived_logs_def)

lemma console_blocked:
  "console blocked_world = [rocket @ '' Initializing AI Collaboration System...'']"
  by (simp add: console_def blocked_world_run)

lemma console_guarded:
  "console guarded_world =
     [rocket @ '' Initializing AI Collaboration System...'',
      folder @ '' Created logs/ directory'',
      check_mark @ '' Created logs/ai_chat.md'']"
  by (simp add: console_def guarded_world_run)

subsection \<open>The sizes of the templates\<close>

text \<open>In bytes, as the literals of the source have them.\<close>

lemma template_sizes:
  "length ai_chat_text = 760"
  "length (dev_log_text s) = length s + 111"
  "length (archived_logs_text s) = length s + 94"
  by (simp_all add: ai_chat_text_def dev_log_text_def archived_logs_text_def unlines_def
      newline_def arrow_def)

lemma full_world_facts:
  "tree_of full_world logs_dir = Some Dir"
  "tree_of full_world ai_chat = None"
  "tree_of full_world dev_log = None"
  "tree_of full_world archived_logs = None"
  "refused full_world logs_dir = None"
  "refused full_world ai_chat = Some (CutShort OSError 0)"
  "refused full_world dev_log = Some (CutShort OSError 0)"
  "refused full_world archived_logs = Some (CutShort OSError 0)"
  by (simp_all add: full_world_def logs_world_def empty_world_def paths_distinct)

lemma full_world_stages:
  "fst (upto_mkdir full_world) = None"
  "fst (upto_ai_chat full_world) = Some OSError"
proof -
  show r1: "fst (upto_mkdir full_world) = None"
    by (simp add: upto_mkdir_fst full_world_facts)
  show "fst (upto_ai_chat full_world) = Some OSError"
    by (simp add: upto_ai_chat_fst [OF r1] full_world_facts raised_def)
qed

section \<open>Properties of the initializer\<close>

text \<open>
  C1, as the specification states it, does not hold when the first run raises. On a full
  disk the first run leaves \<^verbatim>\<open>logs/ai_chat.md\<close> empty and stops there; the second run finds
  it, goes on, and leaves \<^verbatim>\<open>logs/dev_log.md\<close>, which was absent after the first run.
\<close>

theorem interrupted_run_is_resumed:
  "fst (init_collaboration full_world) = Some OSError \<and>
   tree_of (snd (init_collaboration full_world)) ai_chat = Some (File []) \<and>
   tree_of (snd (init_collaboration full_world)) dev_log = None \<and>
   tree_of (snd (init_collaboration (snd (init_collaboration full_world)))) dev_log =
     Some (File [])"
proof -
  have raises: "fst (init_collaboration full_world) = Some OSError"
    by (simp add: init_collaboration_stages full_world_stages)
  have first: "tree_of (snd (init_collaboration full_world)) logs_dir = Some Dir"
    "tree_of (snd (init_collaboration full_world)) ai_chat = Some (File [])"
    "tree_of (snd (init_collaboration full_world)) dev_log = None"
    by (simp_all add: final_tree full_world_stages full_world_facts paths_distinct remains_def)
  let ?v = "snd (init_collaboration full_world)"
  have r1: "fst (upto_mkdir ?v) = None"
    by (simp add: upto_mkdir_fst first)
  have r2: "fst (upto_ai_chat ?v) = None"
    by (simp add: upto_ai_chat_fst [OF r1] first)
  have "tree_of (snd (init_collaboration ?v)) dev_log = Some (File [])"
    by (simp add: final_tree [of ?v] r1 r2 first full_world_facts paths_distinct remains_def)
  with raises first show ?thesis by simp
qed

text \<open>
  C1, amended. Whatever the world at the start, a run does not change a file that is
  already there under one of the three names: its content after the run is its content
  before. The function writes to a path only when that path was absent at the start. So a
  second run, begun in the world the first one left, leaves every file the first run
  left under one of the three names with the same content; and when the first run raised
  nothing, all three paths are there after it and the second run leaves each of them
  exactly as the first run left it.
\<close>

theorem existing_logs_never_rewritten:
  "\<forall>p \<in> {ai_chat, dev_log, archived_logs}.
     (\<forall>c. tree_of w p = Some (File c) \<longrightarrow>
          tree_of (snd (init_collaboration w)) p = Some (File c)) \<and>
     (\<forall>data res. WriteTextCall p data res \<in> set (run_events w) \<longrightarrow> tree_of w p = None) \<and>
     (\<forall>c. tree_of (snd (init_collaboration w)) p = Some (File c) \<longrightarrow>
          tree_of (snd (init_collaboration (snd (init_collaboration w)))) p = Some (File c)) \<and>
     (fst (init_collaboration w) = None \<longrightarrow>
        tree_of (snd (init_collaboration w)) p \<noteq> None \<and>
        tree_of (snd (init_collaboration (snd (init_collaboration w)))) p =
          tree_of (snd (init_collaboration w)) p)"
proof -
  have "tree_of (snd (init_collaboration w)) p \<noteq> None"
    if "fst (init_collaboration w) = None" and "p \<in> {ai_chat, dev_log, archived_logs}" for p
    using that(2) by (auto simp add: final_tree_ok [OF that(1)] paths_distinct)
  then show ?thesis
    using init_collaboration_keeps [of w] written_was_absent [of _ _ _ w]
      init_collaboration_keeps [of "snd (init_collaboration w)"]
      second_run_changes_nothing [of w]
    by simp
qed

theorem existing_logs_never_rewritten_witness:
  "ai_chat \<in> {ai_chat, dev_log, archived_logs} \<and>
   tree_of used_world ai_chat = Some (File ''CURSOR_TURN'') \<and>
   tree_of (snd (init_collaboration used_world)) ai_chat = Some (File ''CURSOR_TURN'') \<and>
   WriteTextCall dev_log (dev_log_text ''2024-03-09 12:00:00'') None \<in> set (run_events used_world) \<and>
   tree_of used_world dev_log = None \<and>
   fst (init_collaboration used_world) = None \<and>
   tree_of (snd (init_collaboration used_world)) dev_log =
     Some (File (dev_log_text ''2024-03-09 12:00:00'')) \<and>
   tree_of (snd (init_collaboration (snd (init_collaboration used_world)))) dev_log =
     Some (File (dev_log_text ''2024-03-09 12:00:00'')) \<and>
   tree_of (snd (init_collaboration (snd (init_collaboration used_world)))) ai_chat =
     Some (File ''CURSOR_TURN'')"
  using existing_logs_never_rewritten [of used_world]
  by (simp add: used_world_facts used_world_stages run_events_eq final_tree_ok init_ok
      strftime_noon paths_distinct)

text \<open>
  C2. In a world where none of \<^verbatim>\<open>logs\<close>, \<^verbatim>\<open>logs/ai_chat.md\<close>, \<^verbatim>\<open>logs/dev_log.md\<close> and
  \<^verbatim>\<open>logs/archived_logs.md\<close> is there, and where the system lets the four creations
  through (it refuses none and cuts none short), the run raises nothing and the tree it leaves is the tree at the start with
  exactly these four entries added: the directory and the three files with their
  templates. Every other path is as it was.
\<close>

theorem fresh_directory_gets_four_entries:
  assumes absent: "tree_of w logs_dir = None" "tree_of w ai_chat = None"
      "tree_of w dev_log = None" "tree_of w archived_logs = None"
    and allowed: "refused w logs_dir = None" "refused w ai_chat = None"
      "refused w dev_log = None" "refused w archived_logs = None"
  shows "fst (init_collaboration w) = None \<and>
         tree_of (snd (init_collaboration w)) =
           (tree_of w)(logs_dir \<mapsto> Dir, ai_chat \<mapsto> File ai_chat_text,
              dev_log \<mapsto> File (dev_log_text (strftime (clock w (ticks w)))),
              archived_logs \<mapsto> File (archived_logs_text (strftime (clock w (Suc (ticks w)))))) \<and>
         dom (tree_of (snd (init_collaboration w))) =
           dom (tree_of w) \<union> {logs_dir, ai_chat, dev_log, archived_logs}"
proof -
  have r1: "fst (upto_mkdir w) = None"
    using absent allowed by (simp add: upto_mkdir_fst)
  have r2: "fst (upto_ai_chat w) = None"
    using absent allowed by (simp add: upto_ai_chat_fst [OF r1])
  have r3: "fst (upto_dev_log w) = None"
    using absent allowed by (simp add: upto_dev_log_fst [OF r1 r2])
  have r4: "fst (upto_archived_logs w) = None"
    using absent allowed by (simp add: upto_archived_logs_fst [OF r1 r2 r3])
  have ok: "fst (init_collaboration w) = None"
    by (simp add: init_collaboration_stages r1 r2 r3 r4)
  have tick: "ticks (snd (upto_dev_log w)) = Suc (ticks w)"
    using absent by (simp add: upto_dev_log_ticks [OF r1 r2])
  have tree: "tree_of (snd (init_collaboration w)) =
           (tree_of w)(logs_dir \<mapsto> Dir, ai_chat \<mapsto> File ai_chat_text,
              dev_log \<mapsto> File (dev_log_text (strftime (clock w (ticks w)))),
              archived_logs \<mapsto> File (archived_logs_text (strftime (clock w (Suc (ticks w))))))"
    using absent allowed by (intro ext) (simp add: final_tree r1 r2 r3 r4 tick paths_distinct)
  have "dom (tree_of (snd (init_collaboration w))) =
           dom (tree_of w) \<union> {logs_dir, ai_chat, dev_log, archived_logs}"
    unfolding tree by auto
  with ok tree show ?thesis by simp
qed

theorem fresh_directory_gets_four_entries_witness:
  "tree_of empty_world logs_dir = None \<and> tree_of empty_world ai_chat = None \<and>
   tree_of empty_world dev_log = None \<and> tree_of empty_world archived_logs = None \<and>
   refused empty_world logs_dir = None \<and> refused empty_world ai_chat = None \<and>
   refused empty_world dev_log = None \<and> refused empty_world archived_logs = None \<and>
   fst (init_collaboration empty_world) = None \<and>
   tree_of (snd (init_collaboration empty_world)) =
     [logs_dir \<mapsto> Dir, ai_chat \<mapsto> File ai_chat_text,
      dev_log \<mapsto> File (dev_log_text ''2024-03-09 12:00:00''),
      archived_logs \<mapsto> File (archived_logs_text ''2024-03-09 12:00:01'')] \<and>
   dom (tree_of (snd (init_collaboration empty_world))) =
     {logs_dir, ai_chat, dev_log, archived_logs}"
  using fresh_directory_gets_four_entries [of empty_world]
  by (simp add: empty_world_facts strftime_noon strftime_noon1 insert_commute)

text \<open>
  C3, as the specification states it, does not hold: the first effect of a run is a line on the console, and
  the call of \<^verbatim>\<open>mkdir\<close> is the second.
\<close>

theorem banner_before_mkdir:
  "hd (run_events empty_world) = Printed (rocket @ '' Initializing AI Collaboration System...'') \<and>
   hd (run_events empty_world) \<noteq> MkdirCall logs_dir None \<and>
   run_events empty_world ! 1 = MkdirCall logs_dir None"
  by (simp add: run_events_eq empty_world_stages)

text \<open>
  C3, amended. After the banner line, the first call a run makes, and its first call on
  the directory tree, is \<^verbatim>\<open>mkdir\<close> on \<^verbatim>\<open>logs\<close>. When the call raises nothing,
  \<^verbatim>\<open>logs\<close> is a directory after it and after the run. When \<^verbatim>\<open>logs\<close> is a directory
  already, the call raises nothing and changes nothing; when \<^verbatim>\<open>logs\<close> is absent and its
  creation is not refused, the call creates it. The parent of \<^verbatim>\<open>logs\<close> is the working
  directory, so no parent can be missing: the call as written, without \<^verbatim>\<open>parents\<close>,
  does what the call with \<^verbatim>\<open>parents=True\<close> does.
\<close>

theorem logs_directory_ensured_first:
  "(\<exists>rest. run_events w =
            Printed (rocket @ '' Initializing AI Collaboration System...'') #
            MkdirCall logs_dir (fst (mkdir logs_dir False True w)) # rest) \<and>
   (\<exists>rest. file_calls (run_events w) =
            MkdirCall logs_dir (fst (mkdir logs_dir False True w)) # rest) \<and>
   (fst (mkdir logs_dir False True w) = None \<longrightarrow>
      tree_of (snd (mkdir logs_dir False True w)) logs_dir = Some Dir \<and>
      tree_of (snd (init_collaboration w)) logs_dir = Some Dir) \<and>
   (tree_of w logs_dir = Some Dir \<longrightarrow>
      fst (mkdir logs_dir False True w) = None \<and>
      tree_of (snd (mkdir logs_dir False True w)) = tree_of w) \<and>
   (tree_of w logs_dir = None \<and> refused w logs_dir = None \<longrightarrow>
      fst (mkdir logs_dir False True w) = None \<and>
      tree_of (snd (mkdir logs_dir False True w)) = (tree_of w)(logs_dir \<mapsto> Dir)) \<and>
   butlast logs_dir = [] \<and>
   mkdir logs_dir True True w = mkdir logs_dir False True w"
proof -
  have "\<exists>rest. run_events w =
            Printed (rocket @ '' Initializing AI Collaboration System...'') #
            MkdirCall logs_dir (fst (mkdir logs_dir False True w)) # rest"
    by (simp add: run_events_eq upto_mkdir_is_mkdir)
  moreover have "\<exists>rest. file_calls (run_events w) =
            MkdirCall logs_dir (fst (mkdir logs_dir False True w)) # rest"
    using file_calls_run [of w] by (simp add: upto_mkdir_is_mkdir)
  moreover have "fst (mkdir logs_dir False True w) = None \<longrightarrow>
      tree_of (snd (mkdir logs_dir False True w)) logs_dir = Some Dir \<and>
      tree_of (snd (init_collaboration w)) logs_dir = Some Dir"
    by (simp add: left_logs upto_mkdir_is_mkdir [symmetric] upto_mkdir_tree)
  moreover have "tree_of w logs_dir = Some Dir \<longrightarrow>
      fst (mkdir logs_dir False True w) = None \<and>
      tree_of (snd (mkdir logs_dir False True w)) = tree_of w"
    by (simp add: mkdir_logs)
  moreover have "tree_of w logs_dir = None \<and> refused w logs_dir = None \<longrightarrow>
      fst (mkdir logs_dir False True w) = None \<and>
      tree_of (snd (mkdir logs_dir False True w)) = (tree_of w)(logs_dir \<mapsto> Dir)"
    by (simp add: mkdir_logs)
  ultimately show ?thesis
    by (simp add: parent_of mkdir_parents_same)
qed

theorem logs_directory_ensured_first_witness:
  "tree_of logs_world logs_dir = Some Dir \<and>
   fst (mkdir logs_dir False True logs_world) = None \<and>
   tree_of (snd (mkdir logs_dir False True logs_world)) = tree_of logs_world \<and>
   tree_of (snd (init_collaboration logs_world)) logs_dir = Some Dir \<and>
   tree_of empty_world logs_dir = None \<and> refused empty_world logs_dir = None \<and>
   fst (mkdir logs_dir False True empty_world) = None \<and>
   tree_of (snd (mkdir logs_dir False True empty_world)) = [logs_dir \<mapsto> Dir] \<and>
   tree_of (snd (init_collaboration empty_world)) logs_dir = Some Dir"
  using logs_directory_ensured_first [of logs_world] logs_directory_ensured_first [of empty_world]
  by (simp add: logs_world_facts empty_world_facts)

text \<open>
  C10. After a run that raises nothing, \<^verbatim>\<open>logs\<close> is a directory; the files written are
  exactly those of the three that were absent at the start, in the order of the source;
  each absent one is a file afterwards, each one present is exactly as it was, whatever
  the state of the other two; and no path other than the four is changed.
\<close>

theorem missing_created_present_kept:
  assumes "fst (init_collaboration w) = None"
  shows "tree_of (snd (init_collaboration w)) logs_dir = Some Dir \<and>
         written (run_events w) = filter (\<lambda>p. tree_of w p = None) [ai_chat, dev_log, archived_logs] \<and>
         (\<forall>p \<in> {ai_chat, dev_log, archived_logs}.
            (tree_of w p = None \<longrightarrow> (\<exists>c. tree_of (snd (init_collaboration w)) p = Some (File c))) \<and>
            (tree_of w p \<noteq> None \<longrightarrow> tree_of (snd (init_collaboration w)) p = tree_of w p)) \<and>
         (\<forall>q. q \<notin> {logs_dir, ai_chat, dev_log, archived_logs} \<longrightarrow>
            tree_of (snd (init_collaboration w)) q = tree_of w q)"
proof -
  from assms have r: "fst (upto_mkdir w) = None" "fst (upto_ai_chat w) = None"
    "fst (upto_dev_log w) = None" "fst (upto_archived_logs w) = None"
    by (simp_all add: init_ok)
  show ?thesis
    by (simp add: written_run [OF assms] final_tree_ok [OF assms] paths_distinct)
qed

theorem missing_created_present_kept_witness:
  "fst (init_collaboration used_world) = None \<and>
   tree_of (snd (init_collaboration used_world)) logs_dir = Some Dir \<and>
   written (run_events used_world) = [dev_log, archived_logs] \<and>
   tree_of used_world ai_chat = Some (File ''CURSOR_TURN'') \<and>
   tree_of (snd (init_collaboration used_world)) ai_chat = Some (File ''CURSOR_TURN'') \<and>
   tree_of used_world dev_log = None \<and>
   tree_of (snd (init_collaboration used_world)) dev_log =
     Some (File (dev_log_text ''2024-03-09 12:00:00'')) \<and>
   tree_of used_world archived_logs = None \<and>
   tree_of (snd (init_collaboration used_world)) archived_logs =
     Some (File (archived_logs_text ''2024-03-09 12:00:01'')) \<and>
   [''README.md''] \<notin> {logs_dir, ai_chat, dev_log, archived_logs} \<and>
   tree_of (snd (init_collaboration used_world)) [''README.md''] = tree_of used_world [''README.md'']"
proof -
  have ok: "fst (init_collaboration used_world) = None"
    by (simp add: init_ok used_world_stages)
  have elsewhere: "[''README.md''] \<notin> {logs_dir, ai_chat, dev_log, archived_logs}"
    by (simp add: logs_dir_def ai_chat_def dev_log_def archived_logs_def)
  show ?thesis
    using missing_created_present_kept [OF ok] ok elsewhere
    by (simp add: used_world_facts used_world_stages final_tree strftime_noon strftime_noon1
        upto_dev_log_ticks paths_distinct)
qed

text \<open>
  C4, as the specification states it, does not hold for the directory: a run in a world where \<^verbatim>\<open>logs\<close> is
  already a directory prints the very lines of a run in a world where it is absent, the
  line \<^verbatim>\<open>Created logs/ directory\<close> among them, so the console does not tell the two apart.
\<close>

theorem directory_line_is_unconditional:
  "tree_of logs_world logs_dir = Some Dir \<and> tree_of empty_world logs_dir = None \<and>
   tree_of (snd (init_collaboration logs_world)) logs_dir = tree_of logs_world logs_dir \<and>
   console logs_world = console empty_world \<and>
   console logs_world ! 1 = folder @ '' Created logs/ directory''"
  by (simp add: console_ok init_ok_empty init_ok_logs logs_world_facts empty_world_facts
      final_tree logs_world_stages)

text \<open>
  C4, amended. On a run that raises nothing the console shows, in this order: the banner,
  the line \<^verbatim>\<open>Created logs/ directory\<close> (whether the directory was there or not), then for
  each of the three files one line, \<^verbatim>\<open>logs/<name> already exists\<close> when the path was
  there at the start and \<^verbatim>\<open>Created logs/<name>\<close> when it was not, then the setup
  instructions.
\<close>

theorem console_reports_each_file:
  assumes "fst (init_collaboration w) = None"
  shows "console w =
     [rocket @ '' Initializing AI Collaboration System...'',
      folder @ '' Created logs/ directory'',
      (if tree_of w ai_chat \<noteq> None then page @ '' logs/ai_chat.md already exists''
       else check_mark @ '' Created logs/ai_chat.md''),
      (if tree_of w dev_log \<noteq> None then page @ '' logs/dev_log.md already exists''
       else check_mark @ '' Created logs/dev_log.md''),
      (if tree_of w archived_logs \<noteq> None then page @ '' logs/archived_logs.md already exists''
       else check_mark @ '' Created logs/archived_logs.md'')] @
     setup_instructions"
  using assms by (rule console_ok)

theorem console_reports_each_file_witness:
  "fst (init_collaboration used_world) = None \<and>
   tree_of used_world ai_chat \<noteq> None \<and> tree_of used_world dev_log = None \<and>
   tree_of used_world archived_logs = None \<and>
   console used_world =
     [rocket @ '' Initializing AI Collaboration System...'',
      folder @ '' Created logs/ directory'',
      page @ '' logs/ai_chat.md already exists'',
      check_mark @ '' Created logs/dev_log.md'',
      check_mark @ '' Created logs/archived_logs.md''] @
     setup_instructions"
  using console_reports_each_file [OF init_ok_used] init_ok_used
  by (simp add: used_world_facts)

text \<open>
  C5. When a run writes \<^verbatim>\<open>logs/dev_log.md\<close> (the write raises nothing), the text written
  is the template around \<^verbatim>\<open>strftime\<close> of the clock as read in the call just before the
  write, and it is the content of the file when the run ends; the same holds for
  \<^verbatim>\<open>logs/archived_logs.md\<close>, whose reading is the next one when \<^verbatim>\<open>dev_log.md\<close> was
  absent too. For a time \<open>t\<close> a \<^verbatim>\<open>datetime\<close> can hold, \<open>strftime t\<close> has the shape
  \<^verbatim>\<open>YYYY-MM-DD HH:MM:SS\<close>, reads back as \<open>t\<close> to the second, and stands in the two texts
  right after \<^verbatim>\<open>Started: \<close> and \<^verbatim>\<open>Created: \<close>.
\<close>

theorem created_logs_carry_the_time:
  "(WriteTextCall dev_log data None \<in> set (run_events w) \<longrightarrow>
      data = dev_log_text (strftime (clock w (ticks w))) \<and>
      sublist [NowCall (clock w (ticks w)), WriteTextCall dev_log data None] (run_events w) \<and>
      tree_of (snd (init_collaboration w)) dev_log = Some (File data)) \<and>
   (WriteTextCall archived_logs data' None \<in> set (run_events w) \<longrightarrow>
      data' = archived_logs_text
                (strftime (clock w (if tree_of w dev_log = None then Suc (ticks w) else ticks w))) \<and>
      sublist [NowCall (clock w (if tree_of w dev_log = None then Suc (ticks w) else ticks w)),
               WriteTextCall archived_logs data' None] (run_events w) \<and>
      tree_of (snd (init_collaboration w)) archived_logs = Some (File data')) \<and>
   (valid_datetime t \<longrightarrow>
      timestamp_shape (strftime t) \<and>
      read_timestamp (strftime t) = t\<lparr>microsecond := 0\<rparr> \<and>
      take 19 (drop 28 (dev_log_text (strftime t))) = strftime t \<and>
      take 19 (drop 26 (archived_logs_text (strftime t))) = strftime t)"
  using dev_log_stamped [of data w] archived_logs_stamped [of data' w]
    strftime_valid(1) [of t] read_timestamp_strftime [of t] length_strftime [of t]
  by (simp add: stamp_in_dev_log_text stamp_in_archived_logs_text)

lemma valid_noon: "valid_datetime (steady_clock noon 0)" "valid_datetime (steady_clock noon (Suc 0))"
  by (simp_all add: valid_datetime_def steady_clock_def noon_def)

theorem created_logs_carry_the_time_witness:
  "WriteTextCall dev_log (dev_log_text ''2024-03-09 12:00:00'') None \<in> set (run_events empty_world) \<and>
   sublist [NowCall (steady_clock noon 0),
            WriteTextCall dev_log (dev_log_text ''2024-03-09 12:00:00'') None]
     (run_events empty_world) \<and>
   tree_of (snd (init_collaboration empty_world)) dev_log =
     Some (File (dev_log_text ''2024-03-09 12:00:00'')) \<and>
   WriteTextCall archived_logs (archived_logs_text ''2024-03-09 12:00:01'') None
     \<in> set (run_events empty_world) \<and>
   sublist [NowCall (steady_clock noon (Suc 0)),
            WriteTextCall archived_logs (archived_logs_text ''2024-03-09 12:00:01'') None]
     (run_events empty_world) \<and>
   tree_of (snd (init_collaboration empty_world)) archived_logs =
     Some (File (archived_logs_text ''2024-03-09 12:00:01'')) \<and>
   valid_datetime (steady_clock noon 0) \<and>
   timestamp_shape ''2024-03-09 12:00:00'' \<and>
   read_timestamp ''2024-03-09 12:00:00'' = steady_clock noon 0 \<and>
   take 19 (drop 28 (dev_log_text ''2024-03-09 12:00:00'')) = ''2024-03-09 12:00:00'' \<and>
   take 19 (drop 26 (archived_logs_text ''2024-03-09 12:00:00'')) = ''2024-03-09 12:00:00''"
proof -
  have w1: "WriteTextCall dev_log (dev_log_text ''2024-03-09 12:00:00'') None
              \<in> set (run_events empty_world)"
    by (simp add: run_events_eq empty_world_stages empty_world_facts strftime_noon)
  have w2: "WriteTextCall archived_logs (archived_logs_text ''2024-03-09 12:00:01'') None
              \<in> set (run_events empty_world)"
    by (simp add: run_events_eq empty_world_stages empty_world_facts strftime_noon1
        upto_dev_log_ticks)
  have same: "steady_clock noon 0\<lparr>microsecond := 0\<rparr> = steady_clock noon 0"
    by (simp add: steady_clock_def noon_def)
  show ?thesis
    using created_logs_carry_the_time
      [of "dev_log_text ''2024-03-09 12:00:00''" empty_world
          "archived_logs_text ''2024-03-09 12:00:01''" "steady_clock noon 0"]
      w1 w2 valid_noon(1)
    by (simp add: empty_world_facts strftime_noon strftime_noon1 same)
qed

text \<open>
  C6. Whatever the world, the text a run hands to \<^verbatim>\<open>write_text\<close> for \<^verbatim>\<open>logs/ai_chat.md\<close>
  is the one constant \<open>ai_chat_text\<close>. The texts for \<^verbatim>\<open>logs/dev_log.md\<close> and
  \<^verbatim>\<open>logs/archived_logs.md\<close> are the two templates around \<^verbatim>\<open>strftime\<close> of a reading of the
  clock, and they do hold it: different stamps give different texts, and two times a
  \<^verbatim>\<open>datetime\<close> can hold that have the same stamp are the same to the second.
\<close>

theorem two_templates_hold_the_time:
  "(WriteTextCall ai_chat data res \<in> set (run_events w) \<longrightarrow> data = ai_chat_text) \<and>
   (WriteTextCall dev_log data res \<in> set (run_events w) \<longrightarrow>
      data = dev_log_text (strftime (clock w (ticks w)))) \<and>
   (WriteTextCall archived_logs data res \<in> set (run_events w) \<longrightarrow>
      data = archived_logs_text
               (strftime (clock w (if tree_of w dev_log = None then Suc (ticks w) else ticks w)))) \<and>
   (dev_log_text s = dev_log_text s' \<longleftrightarrow> s = s') \<and>
   (archived_logs_text s = archived_logs_text s' \<longleftrightarrow> s = s') \<and>
   (valid_datetime t \<and> valid_datetime t' \<and> strftime t = strftime t' \<longrightarrow>
      t\<lparr>microsecond := 0\<rparr> = t'\<lparr>microsecond := 0\<rparr>)"
  using ai_chat_write(4) [of data res w] dev_log_write(5) [of data res w]
    archived_logs_tick [of data res w] strftime_inj [of t t']
  by (simp add: dev_log_text_inj archived_logs_text_inj)

theorem two_templates_hold_the_time_witness:
  "WriteTextCall ai_chat ai_chat_text None \<in> set (run_events guarded_world) \<and>
   WriteTextCall dev_log (dev_log_text ''2024-03-09 12:00:00'') (Some PermissionError)
     \<in> set (run_events guarded_world) \<and>
   dev_log_text ''2024-03-09 12:00:00'' =
     dev_log_text (strftime (clock guarded_world (ticks guarded_world))) \<and>
   WriteTextCall archived_logs (archived_logs_text ''2024-03-09 12:00:01'') None
     \<in> set (run_events empty_world) \<and>
   archived_logs_text ''2024-03-09 12:00:01'' =
     archived_logs_text (strftime (clock empty_world (Suc (ticks empty_world)))) \<and>
   valid_datetime (steady_clock noon 0) \<and> valid_datetime (steady_clock noon (Suc 0)) \<and>
   strftime (steady_clock noon 0) \<noteq> strftime (steady_clock noon (Suc 0)) \<and>
   dev_log_text (strftime (steady_clock noon 0)) \<noteq> dev_log_text (strftime (steady_clock noon (Suc 0)))"
proof -
  have w1: "WriteTextCall ai_chat ai_chat_text None \<in> set (run_events guarded_world)"
    by (simp add: guarded_world_run)
  have w2: "WriteTextCall dev_log (dev_log_text ''2024-03-09 12:00:00'') (Some PermissionError)
              \<in> set (run_events guarded_world)"
    by (simp add: guarded_world_run)
  have w3: "WriteTextCall archived_logs (archived_logs_text ''2024-03-09 12:00:01'') None
              \<in> set (run_events empty_world)"
    by (simp add: run_events_eq empty_world_stages empty_world_facts strftime_noon1
        upto_dev_log_ticks)
  have differ: "steady_clock noon 0\<lparr>microsecond := 0\<rparr> \<noteq> steady_clock noon (Suc 0)\<lparr>microsecond := 0\<rparr>"
    by (simp add: steady_clock_def noon_def)
  note inst = two_templates_hold_the_time
  have a: "dev_log_text ''2024-03-09 12:00:00'' =
             dev_log_text (strftime (clock guarded_world (ticks guarded_world)))"
    using inst [of "dev_log_text ''2024-03-09 12:00:00''" "Some PermissionError" guarded_world]
      w2 by blast
  have b: "archived_logs_text ''2024-03-09 12:00:01'' =
             archived_logs_text (strftime (clock empty_world (Suc (ticks empty_world))))"
  proof -
    have "archived_logs_text ''2024-03-09 12:00:01'' =
            archived_logs_text (strftime (clock empty_world
              (if tree_of empty_world dev_log = None then Suc (ticks empty_world)
               else ticks empty_world)))"
      using inst [of "archived_logs_text ''2024-03-09 12:00:01''" None empty_world] w3 by blast
    then show ?thesis by (simp add: empty_world_facts)
  qed
  have c: "strftime (steady_clock noon 0) \<noteq> strftime (steady_clock noon (Suc 0))"
    using inst [of _ _ _ _ _ "steady_clock noon 0" "steady_clock noon (Suc 0)"] valid_noon differ
    by blast
  have d: "dev_log_text (strftime (steady_clock noon 0)) \<noteq>
           dev_log_text (strftime (steady_clock noon (Suc 0)))"
    using inst [of _ _ _ "strftime (steady_clock noon 0)" "strftime (steady_clock noon (Suc 0))"] c
    by blast
  from w1 w2 a w3 b valid_noon c d show ?thesis by blast
qed


text \<open>
  C7. There is no handler in the function. When a call of \<^verbatim>\<open>mkdir\<close> or \<^verbatim>\<open>write_text\<close>
  raises, that error is the result of \<^verbatim>\<open>init_collaboration\<close>, the call is the last thing
  the run does (so it is not tried again and nothing is printed after it), it is the only
  call of the run that raised, and the program ends with status 1. The program ends with
  status 0 exactly when the function returns.
\<close>

theorem filesystem_errors_propagate:
  "(e \<in> set (run_events w) \<and> failed e = Some err \<longrightarrow>
      fst (init_collaboration w) = Some err \<and> last (run_events w) = e \<and>
      filter (\<lambda>e. failed e \<noteq> None) (run_events w) = [e] \<and> fst (main w) = 1) \<and>
   (fst (init_collaboration w) = Some err \<longrightarrow> failed (last (run_events w)) = Some err) \<and>
   fst (main w) = (if fst (init_collaboration w) = None then 0 else 1) \<and>
   snd (main w) = snd (init_collaboration w)"
proof -
  have "fst (init_collaboration w) = Some err \<and> last (run_events w) = e \<and>
      filter (\<lambda>e. failed e \<noteq> None) (run_events w) = [e] \<and> fst (main w) = 1"
    if e: "e \<in> set (run_events w)" and err: "failed e = Some err"
  proof -
    from e err have mem: "e \<in> set (filter (\<lambda>e. failed e \<noteq> None) (run_events w))"
      by simp
    have "fst (init_collaboration w) \<noteq> None"
    proof
      assume "fst (init_collaboration w) = None"
      then have none: "filter (\<lambda>e. failed e \<noteq> None) (run_events w) = []"
        using failed_run(1) [of w] by simp
      from mem show False unfolding none by simp
    qed
    then obtain err' where r: "fst (init_collaboration w) = Some err'"
      by auto
    then have only: "filter (\<lambda>e. failed e \<noteq> None) (run_events w) = [last (run_events w)]"
      using failed_run(1) [of w] by simp
    from mem have last: "last (run_events w) = e"
      unfolding only by simp
    with r err failed_run(2) [of w] have "err' = err" by simp
    with r last only show ?thesis by (simp add: main_status)
  qed
  moreover have "fst (init_collaboration w) = Some err \<longrightarrow> failed (last (run_events w)) = Some err"
    using failed_run(2) [of w] by simp
  ultimately show ?thesis by (simp add: main_status)
qed

theorem filesystem_errors_propagate_witness:
  "WriteTextCall dev_log (dev_log_text ''2024-03-09 12:00:00'') (Some PermissionError)
     \<in> set (run_events guarded_world) \<and>
   failed (WriteTextCall dev_log (dev_log_text ''2024-03-09 12:00:00'') (Some PermissionError)) =
     Some PermissionError \<and>
   fst (init_collaboration guarded_world) = Some PermissionError \<and>
   last (run_events guarded_world) =
     WriteTextCall dev_log (dev_log_text ''2024-03-09 12:00:00'') (Some PermissionError) \<and>
   fst (main guarded_world) = 1 \<and>
   MkdirCall logs_dir (Some FileExistsError) \<in> set (run_events blocked_world) \<and>
   fst (init_collaboration blocked_world) = Some FileExistsError \<and>
   last (run_events blocked_world) = MkdirCall logs_dir (Some FileExistsError) \<and>
   fst (main blocked_world) = 1 \<and>
   fst (init_collaboration empty_world) = None \<and> fst (main empty_world) = 0"
  using filesystem_errors_propagate
      [of "WriteTextCall dev_log (dev_log_text ''2024-03-09 12:00:00'') (Some PermissionError)"
          guarded_world PermissionError]
    filesystem_errors_propagate
      [of "MkdirCall logs_dir (Some FileExistsError)" blocked_world FileExistsError]
    filesystem_errors_propagate [of _ empty_world]
  by (simp add: guarded_world_run blocked_world_run init_ok_empty)

text \<open>
  C8. On every run the paths named by the calls on the directory tree come in the order
  \<^verbatim>\<open>logs\<close>, \<^verbatim>\<open>logs/ai_chat.md\<close>, \<^verbatim>\<open>logs/dev_log.md\<close>, \<^verbatim>\<open>logs/archived_logs.md\<close>, the calls
  on one path side by side, and a run that raises stops somewhere along this order. Every
  write comes directly after the existence check of its own path, which answered no. On
  a run that raises nothing all four paths are handled and the setup instructions are
  the end of what the run does, after every call on the tree; on a run that raises, no
  line of the setup instructions is printed.
\<close>

theorem effects_in_fixed_order:
  "prefix (remdups_adj (map touched (file_calls (run_events w))))
     [logs_dir, ai_chat, dev_log, archived_logs] \<and>
   (WriteTextCall p data res \<in> set (run_events w) \<longrightarrow>
      sublist [ExistsCall p False, WriteTextCall p data res] (file_calls (run_events w))) \<and>
   (fst (init_collaboration w) = None \<longrightarrow>
      remdups_adj (map touched (file_calls (run_events w))) =
        [logs_dir, ai_chat, dev_log, archived_logs] \<and>
      (\<exists>pre. run_events w = pre @ map Printed setup_instructions \<and>
             file_calls pre = file_calls (run_events w))) \<and>
   (fst (init_collaboration w) \<noteq> None \<longrightarrow> set (console w) \<inter> set setup_instructions = {})"
  using order_of_paths [of w] check_before_write [of p data res w] instructions_last [of w]
    no_instructions_after_error [of w]
  by blast

theorem effects_in_fixed_order_witness:
  "remdups_adj (map touched (file_calls (run_events used_world))) =
     [logs_dir, ai_chat, dev_log, archived_logs] \<and>
   file_calls (run_events used_world) =
     [MkdirCall logs_dir None, ExistsCall ai_chat True, ExistsCall dev_log False,
      WriteTextCall dev_log (dev_log_text ''2024-03-09 12:00:00'') None,
      ExistsCall archived_logs False,
      WriteTextCall archived_logs (archived_logs_text ''2024-03-09 12:00:01'') None] \<and>
   WriteTextCall dev_log (dev_log_text ''2024-03-09 12:00:00'') None \<in> set (run_events used_world) \<and>
   sublist [ExistsCall dev_log False,
            WriteTextCall dev_log (dev_log_text ''2024-03-09 12:00:00'') None]
     (file_calls (run_events used_world)) \<and>
   fst (init_collaboration used_world) = None \<and>
   drop 13 (run_events used_world) = map Printed setup_instructions \<and>
   file_calls (take 13 (run_events used_world)) = file_calls (run_events used_world) \<and>
   fst (init_collaboration guarded_world) \<noteq> None \<and>
   remdups_adj (map touched (file_calls (run_events guarded_world))) = [logs_dir, ai_chat, dev_log] \<and>
   set (console guarded_world) \<inter> set setup_instructions = {}"
proof -
  have run: "run_events used_world =
     [Printed (rocket @ '' Initializing AI Collaboration System...''),
      MkdirCall logs_dir None,
      Printed (folder @ '' Created logs/ directory''),
      ExistsCall ai_chat True,
      Printed (page @ '' logs/ai_chat.md already exists''),
      ExistsCall dev_log False,
      NowCall (steady_clock noon 0),
      WriteTextCall dev_log (dev_log_text ''2024-03-09 12:00:00'') None,
      Printed (check_mark @ '' Created logs/dev_log.md''),
      ExistsCall archived_logs False,
      NowCall (steady_clock noon (Suc 0)),
      WriteTextCall archived_logs (archived_logs_text ''2024-03-09 12:00:01'') None,
      Printed (check_mark @ '' Created logs/archived_logs.md'')] @
     map Printed setup_instructions"
    by (simp add: run_events_eq used_world_stages used_world_facts strftime_noon strftime_noon1
        upto_dev_log_ticks)
  have calls: "file_calls (run_events used_world) =
     [MkdirCall logs_dir None, ExistsCall ai_chat True, ExistsCall dev_log False,
      WriteTextCall dev_log (dev_log_text ''2024-03-09 12:00:00'') None,
      ExistsCall archived_logs False,
      WriteTextCall archived_logs (archived_logs_text ''2024-03-09 12:00:01'') None]"
    unfolding run
    by (simp add: file_calls_Cons file_calls_Nil file_calls_append file_calls_prints)
  have w: "WriteTextCall dev_log (dev_log_text ''2024-03-09 12:00:00'') None
             \<in> set (run_events used_world)"
    unfolding run by simp
  have ends: "drop 13 (run_events used_world) = map Printed setup_instructions"
    "file_calls (take 13 (run_events used_world)) = file_calls (run_events used_world)"
    unfolding calls unfolding run
    by (simp_all add: file_calls_Cons file_calls_Nil)
  have g: "fst (init_collaboration guarded_world) \<noteq> None"
    by (simp add: guarded_world_run)
  have gcalls: "remdups_adj (map touched (file_calls (run_events guarded_world))) =
      [logs_dir, ai_chat, dev_log]"
    by (simp add: guarded_world_run file_calls_Cons file_calls_Nil paths_distinct)
  show ?thesis
    using effects_in_fixed_order
        [of used_world dev_log "dev_log_text ''2024-03-09 12:00:00''" None]
      effects_in_fixed_order [of guarded_world] w init_ok_used g calls ends gcalls
    by blast
qed

text \<open>
  C9, as the specification states it, does not hold: the same paths and the same clock do not fix the
  behaviour. Where \<^verbatim>\<open>logs\<close> is a regular file, \<^verbatim>\<open>mkdir\<close> raises and the run prints the
  banner only; where \<^verbatim>\<open>logs\<close> is a directory, and also where it is absent, the run goes
  on and writes the three files. And in two worlds with the very same tree, the run stops
  where the system refuses a creation in one and not in the other.
\<close>

theorem same_paths_different_runs:
  "(tree_of blocked_world logs_dir \<noteq> None) = (tree_of logs_world logs_dir \<noteq> None) \<and>
   (tree_of blocked_world ai_chat \<noteq> None) = (tree_of logs_world ai_chat \<noteq> None) \<and>
   (tree_of blocked_world dev_log \<noteq> None) = (tree_of logs_world dev_log \<noteq> None) \<and>
   (tree_of blocked_world archived_logs \<noteq> None) = (tree_of logs_world archived_logs \<noteq> None) \<and>
   clock blocked_world = clock logs_world \<and> ticks blocked_world = ticks logs_world \<and>
   console blocked_world \<noteq> console logs_world \<and>
   written (run_events blocked_world) \<noteq> written (run_events logs_world) \<and>
   tree_of blocked_world logs_dir \<noteq> Some Dir \<and> tree_of empty_world logs_dir \<noteq> Some Dir \<and>
   console blocked_world \<noteq> console empty_world \<and>
   tree_of guarded_world = tree_of logs_world \<and>
   clock guarded_world = clock logs_world \<and> ticks guarded_world = ticks logs_world \<and>
   console guarded_world \<noteq> console logs_world"
proof -
  have "written (run_events logs_world) = [ai_chat, dev_log, archived_logs]"
    by (simp add: written_run [OF init_ok_logs] logs_world_facts)
  moreover have "written (run_events blocked_world) = []"
    by (simp add: blocked_world_run)
  moreover have "tree_of guarded_world = tree_of logs_world"
    by (simp add: guarded_world_def)
  ultimately show ?thesis
    by (simp add: blocked_world_facts logs_world_facts empty_world_facts guarded_world_facts
        console_blocked console_guarded console_ok [OF init_ok_logs] console_ok [OF init_ok_empty])
qed

text \<open>
  C9, amended. The function has no call that reads a file. Take two worlds in which
  \<^verbatim>\<open>logs\<close> is of the same kind (absent, a directory, or something else), each of the three
  files is there in both or in neither, the system refuses or cuts short the same
  creations among the four paths, and the clock and the number of readings taken are the same. Then the two
  runs make the same calls with the same arguments and outcomes (so they print the same
  lines and hand the same texts to \<^verbatim>\<open>write_text\<close>), raise the same error or none, and end
  with the same status: what the files hold, and what else is in the tree, has no part in it.
\<close>

theorem behaviour_ignores_contents:
  assumes "tree_of w logs_dir = None \<longleftrightarrow> tree_of w' logs_dir = None"
    and "tree_of w logs_dir = Some Dir \<longleftrightarrow> tree_of w' logs_dir = Some Dir"
    and "tree_of w ai_chat = None \<longleftrightarrow> tree_of w' ai_chat = None"
    and "tree_of w dev_log = None \<longleftrightarrow> tree_of w' dev_log = None"
    and "tree_of w archived_logs = None \<longleftrightarrow> tree_of w' archived_logs = None"
    and "refused w logs_dir = refused w' logs_dir" and "refused w ai_chat = refused w' ai_chat"
    and "refused w dev_log = refused w' dev_log"
    and "refused w archived_logs = refused w' archived_logs"
    and "clock w = clock w'" and "ticks w = ticks w'"
  shows "run_events w = run_events w' \<and> console w = console w' \<and>
         written (run_events w) = written (run_events w') \<and>
         fst (init_collaboration w) = fst (init_collaboration w') \<and>
         fst (main w) = fst (main w')"
  using same_run [OF assms] by (simp add: console_def main_status)

theorem behaviour_ignores_contents_witness:
  "tree_of used_world ai_chat = Some (File ''CURSOR_TURN'') \<and>
   tree_of reused_world ai_chat = Some (File ''COPILOT_TURN'') \<and>
   tree_of used_world \<noteq> tree_of reused_world \<and>
   (tree_of used_world logs_dir = None) = (tree_of reused_world logs_dir = None) \<and>
   (tree_of used_world logs_dir = Some Dir) = (tree_of reused_world logs_dir = Some Dir) \<and>
   (tree_of used_world ai_chat = None) = (tree_of reused_world ai_chat = None) \<and>
   (tree_of used_world dev_log = None) = (tree_of reused_world dev_log = None) \<and>
   (tree_of used_world archived_logs = None) = (tree_of reused_world archived_logs = None) \<and>
   refused used_world = refused reused_world \<and>
   clock used_world = clock reused_world \<and> ticks used_world = ticks reused_world \<and>
   run_events used_world = run_events reused_world \<and>
   console used_world = console reused_world \<and>
   fst (init_collaboration used_world) = fst (init_collaboration reused_world) \<and>
   fst (main used_world) = fst (main reused_world)"
proof -
  have differ: "tree_of used_world \<noteq> tree_of reused_world"
  proof
    assume "tree_of used_world = tree_of reused_world"
    then have "tree_of used_world ai_chat = tree_of reused_world ai_chat" by simp
    then show False by (simp add: used_world_facts reused_world_facts)
  qed
  have "run_events used_world = run_events reused_world \<and>
        console used_world = console reused_world \<and>
        written (run_events used_world) = written (run_events reused_world) \<and>
        fst (init_collaboration used_world) = fst (init_collaboration reused_world) \<and>
        fst (main used_world) = fst (main reused_world)"
    by (rule behaviour_ignores_contents) (simp_all add: used_world_facts reused_world_facts)
  with differ show ?thesis
    by (simp add: used_world_facts reused_world_facts)
qed



end
